theory Spec2Isabelle
  imports Main
begin

section \<open>Data model\<close>

text \<open>
  The booking lifecycle of RoomVerse lives in \<^verbatim>\<open>backend/routes/bookings.js\<close>; the
  documents it reads and writes are the Mongoose schemas \<^verbatim>\<open>Booking\<close>
  (\<^verbatim>\<open>backend/models/Booking.js\<close>) and \<^verbatim>\<open>Hostel\<close> (the \<^verbatim>\<open>hostelSchema\<close>).
  Object ids are natural numbers, dates are milliseconds since the epoch, and amounts of
  money are integers (JavaScript numbers holding integral values).  Fields that no booking
  route reads or writes (address, images, review, notes, ...) are left out.
\<close>

datatype role = Student | Parent | HostelOwner | Admin

datatype room_type = Single | Double | Triple | Quad

datatype hostel_status = HostelActive | HostelInactive | UnderReview | HostelRejected

datatype status =
    Pending | Confirmed | Paid | CheckedIn | Active | CheckedOut
  | Completed | Cancelled | Rejected | Expired

record user =
  uid :: nat
  role :: role

record room_doc =
  rtype :: room_type
  totalRooms :: int
  availableRooms :: int

record hostel_pricing =
  h_monthlyRent :: int
  h_securityDeposit :: "int option"
  h_maintenanceCharges :: "int option"

record hostel_food =
  food_available :: bool
  food_type :: string
  food_mealPlan :: string
  food_monthlyCost :: int

record hostel_doc =
  hostel_owner :: nat
  hostel_pricing :: hostel_pricing
  rooms :: "room_doc list"
  hostel_foodOptions :: hostel_food
  hostel_status :: hostel_status
  isVerified :: bool
  currentOccupancy :: int

record booking_pricing =
  monthlyRent :: int
  securityDeposit :: int
  maintenanceCharges :: int
  totalAmount :: int
  paidAmount :: int
  pendingAmount :: int

record booking_food =
  selected :: bool
  foodType :: string
  mealPlan :: string
  monthlyCost :: int

record payment_doc =
  payment_method :: string
  transactionId :: "string option"
  paymentDate :: "int option"
  razorpayOrderId :: "string option"
  razorpayPaymentId :: "string option"
  razorpaySignature :: "string option"

record cancellation_doc =
  reason :: "string option"
  cancelledBy :: "string option"
  refundAmount :: "int option"
  refundStatus :: "string option"

record emergency_contact =
  ec_name :: "string option"
  ec_phone :: "string option"
  ec_relationship :: "string option"

record booking_doc =
  bookingId :: string
  student :: nat
  hostel :: nat
  owner :: nat
  roomType :: room_type
  checkInDate :: int
  checkOutDate :: int
  duration :: int
  pricing :: booking_pricing
  foodOptions :: booking_food
  status :: status
  payment :: payment_doc
  specialRequests :: "string option"
  confirmedAt :: "int option"
  paidAt :: "int option"
  cancelledAt :: "int option"
  cancellation :: cancellation_doc
  emergencyContact :: "emergency_contact option"

text \<open>The two collections; a document's id is its position in the list.\<close>

record state =
  hostels :: "hostel_doc list"
  bookings :: "booking_doc list"

text \<open>
  The responses of the handlers.  \<open>ValidationError\<close> is the 400 of a failed
  express-validator chain or date check, \<open>NotFound\<close> the 404, \<open>Forbidden\<close> the 403;
  \<open>HostelUnavailable\<close> is "Hostel is not available for booking", \<open>RoomUnavailable\<close>
  "No ... rooms available", \<open>DuplicateActiveBooking\<close> "You already have an active
  booking", \<open>InvalidTransition\<close> "Booking cannot be confirmed (rejected, cancelled) in
  current status", \<open>InvalidSignature\<close> "Invalid payment signature" (all 400), and
  \<open>ServerError\<close> the 500 of a \<^verbatim>\<open>catch\<close> block.
\<close>

datatype error =
    ValidationError | NotFound | Forbidden | HostelUnavailable | RoomUnavailable
  | DuplicateActiveBooking | InvalidTransition | InvalidSignature | ServerError

datatype response = Success | Failure error

definition findById :: "'a list \<Rightarrow> nat \<Rightarrow> 'a option" where
  "findById xs i = (if i < length xs then Some (xs ! i) else None)"

fun findIndex :: "('a \<Rightarrow> bool) \<Rightarrow> 'a list \<Rightarrow> nat option" where
  "findIndex P [] = None"
| "findIndex P (x # xs) = (if P x then Some 0 else map_option Suc (findIndex P xs))"

section \<open>Refund policy: \<^verbatim>\<open>bookingSchema.methods.calculateRefund\<close>\<close>

text \<open>
  \<^verbatim>\<open>Math.floor(this.pricing.paidAmount * refundPercentage)\<close> multiplies two IEEE-754
  binary64 numbers.  The percentages \<^verbatim>\<open>0.9\<close>, \<^verbatim>\<open>0.7\<close>, \<^verbatim>\<open>0.2\<close> are not dyadic, so the
  literal denotes the nearest binary64 value and the product is rounded to nearest, ties
  to even, before \<^verbatim>\<open>Math.floor\<close> sees it.  A binary64 value is kept as a significand and
  an exponent, \<open>m / 2 ^ k\<close>.
\<close>

record binary64 =
  significand :: nat
  scale :: nat

fun bit_length :: "nat \<Rightarrow> nat" where
  "bit_length n = (if n = 0 then 0 else Suc (bit_length (n div 2)))"

declare bit_length.simps [simp del]

text \<open>\<open>n / 2 ^ s\<close> rounded to the nearest integer, ties to the even one.\<close>

definition round_shift :: "nat \<Rightarrow> nat \<Rightarrow> nat" where
  "round_shift n s =
     (let q = n div 2 ^ s; r = 2 * (n mod 2 ^ s) in
      if r < 2 ^ s then q
      else if 2 ^ s < r then q + 1
      else if even q then q else q + 1)"

text \<open>The integer \<open>n\<close> rounded to 53 significant bits.\<close>

definition round53 :: "nat \<Rightarrow> nat" where
  "round53 n = (let s = bit_length n - 53 in round_shift n s * 2 ^ s)"

text \<open>
  \<^verbatim>\<open>Math.floor(a * x)\<close> for an integral number \<open>a\<close> and a binary64 \<open>x = m / 2 ^ k\<close>:
  the exact product is \<open>a * m / 2 ^ k\<close>; scaling by a power of two commutes with rounding
  (the products here are far from the subnormal and overflow ranges).
\<close>

definition floor_times :: "int \<Rightarrow> binary64 \<Rightarrow> int" where
  "floor_times a x =
     (sgn a * int (round53 (nat \<bar>a\<bar> * significand x))) div 2 ^ scale x"

text \<open>
  Amounts and durations are whole numbers held in binary64 (far below the overflow range).
  \<open>nearest64\<close> is the binary64 value nearest to an integer, which is what reading a
  decimal numeral gives; a product or a sum (\<^verbatim>\<open>a * b\<close>, \<^verbatim>\<open>a + b\<close>) of two such numbers is
  the binary64 value nearest to the exact result.
\<close>

definition nearest64 :: "int \<Rightarrow> int" where
  "nearest64 a = sgn a * int (round53 (nat \<bar>a\<bar>))"

definition times64 :: "int \<Rightarrow> int \<Rightarrow> int" where
  "times64 a b = nearest64 (a * b)"

definition plus64 :: "int \<Rightarrow> int \<Rightarrow> int" where
  "plus64 a b = nearest64 (a + b)"

text \<open>The literals: \<^verbatim>\<open>0.9 = 0x1.ccccccccccccdp-1\<close>, \<^verbatim>\<open>0.7 = 0x1.6666666666666p-1\<close>,
  \<^verbatim>\<open>0.5\<close>, \<^verbatim>\<open>0.2 = 0x1.999999999999ap-3\<close> and \<^verbatim>\<open>0\<close>.\<close>

definition lit_0_9 :: binary64 where
  "lit_0_9 = \<lparr>significand = 8106479329266893, scale = 53\<rparr>"

definition lit_0_7 :: binary64 where
  "lit_0_7 = \<lparr>significand = 6305039478318694, scale = 53\<rparr>"

definition lit_0_5 :: binary64 where
  "lit_0_5 = \<lparr>significand = 1, scale = 1\<rparr>"

definition lit_0_2 :: binary64 where
  "lit_0_2 = \<lparr>significand = 7205759403792794, scale = 55\<rparr>"

definition lit_0 :: binary64 where
  "lit_0 = \<lparr>significand = 0, scale = 0\<rparr>"

text \<open>\<^verbatim>\<open>Math.ceil((checkInDate - now) / (1000 * 60 * 60 * 24))\<close>.\<close>

definition daysUntilCheckIn :: "int \<Rightarrow> int \<Rightarrow> int" where
  "daysUntilCheckIn checkIn now = - ((now - checkIn) div 86400000)"

definition refundPercentage :: "int \<Rightarrow> binary64" where
  "refundPercentage days =
     (if days > 30 then lit_0_9
      else if days > 15 then lit_0_7
      else if days > 7 then lit_0_5
      else if days > 0 then lit_0_2
      else lit_0)"

text \<open>The policy as a function of the paid amount and the days until check-in.\<close>

definition computeRefund :: "int \<Rightarrow> int \<Rightarrow> int" where
  "computeRefund paid days = floor_times paid (refundPercentage days)"

definition calculateRefund :: "booking_doc \<Rightarrow> int \<Rightarrow> int" where
  "calculateRefund b now =
     computeRefund (paidAmount (pricing b)) (daysUntilCheckIn (checkInDate b) now)"

text \<open>The policy in the specification's words: \<open>floor (paidAmount * pct)\<close> with exact
  percentages.\<close>

definition refund_percent_spec :: "int \<Rightarrow> int" where
  "refund_percent_spec days =
     (if days > 30 then 90
      else if 16 \<le> days \<and> days \<le> 30 then 70
      else if 8 \<le> days \<and> days \<le> 15 then 50
      else if 1 \<le> days \<and> days \<le> 7 then 20
      else 0)"

definition computeRefund_spec :: "int \<Rightarrow> int \<Rightarrow> int" where
  "computeRefund_spec paid days = (paid * refund_percent_spec days) div 100"

section \<open>Persistence\<close>

text \<open>\<^verbatim>\<open>x || 0\<close> on a number that may be missing, \<^verbatim>\<open>a || b\<close> on a string that may be
  missing or empty.\<close>

definition or_zero :: "int option \<Rightarrow> int" where
  "or_zero x = (case x of None \<Rightarrow> 0 | Some v \<Rightarrow> v)"

definition or_string :: "string option \<Rightarrow> string \<Rightarrow> string" where
  "or_string a b = (case a of None \<Rightarrow> b | Some v \<Rightarrow> if v = [] then b else v)"

text \<open>
  \<^verbatim>\<open>document.save()\<close> first checks the schema validators (all of them on a new document,
  those of the fields the handler has set on a stored one), then runs the pre-save hook
  and writes the document; a failed validator or a violated unique index throws, and every
  handler turns that into the response 500 of its \<^verbatim>\<open>catch\<close> block (\<open>ServerError\<close>)
  without writing that document.

  \<^verbatim>\<open>bookingSchema.pre('save')\<close>: a booking without a \<^verbatim>\<open>bookingId\<close> gets a generated one
  (\<open>gen\<close> stands for the date-and-random string), and the pending amount is recomputed on
  every save.  The hook runs after the validators, so the document that
  \<^verbatim>\<open>new Booking({...})\<close> builds is checked for its \<^verbatim>\<open>required\<close> \<^verbatim>\<open>bookingId\<close> while it
  has none, and its save fails.
\<close>

definition generate_bookingId :: "string \<Rightarrow> booking_doc \<Rightarrow> booking_doc" where
  "generate_bookingId gen b = (if bookingId b = [] then b\<lparr>bookingId := gen\<rparr> else b)"

definition pre_save :: "booking_doc \<Rightarrow> booking_doc" where
  "pre_save b =
     b\<lparr>pricing := (pricing b)\<lparr>pendingAmount :=
          totalAmount (pricing b) - paidAmount (pricing b)\<rparr>\<rparr>"

text \<open>The schema validators of a new booking: \<^verbatim>\<open>required\<close> on the booking id,
  \<^verbatim>\<open>min\<close> on the duration and the amounts, \<^verbatim>\<open>enum\<close> on the food type and the meal
  plan.\<close>

definition booking_valid :: "booking_doc \<Rightarrow> bool" where
  "booking_valid b =
     (bookingId b \<noteq> []
      \<and> 1 \<le> duration b
      \<and> 0 \<le> monthlyRent (pricing b)
      \<and> 0 \<le> securityDeposit (pricing b)
      \<and> 0 \<le> maintenanceCharges (pricing b)
      \<and> 0 \<le> totalAmount (pricing b)
      \<and> 0 \<le> paidAmount (pricing b)
      \<and> 0 \<le> pendingAmount (pricing b)
      \<and> foodType (foodOptions b) \<in> set [''Veg'', ''Non-Veg'', ''Both'']
      \<and> mealPlan (foodOptions b) \<in> set [''Breakfast Only'', ''Lunch Only'', ''Dinner Only'',
            ''Breakfast + Dinner'', ''All Meals'']
      \<and> 0 \<le> monthlyCost (foodOptions b))"

text \<open>The validators of the \<^verbatim>\<open>cancellation\<close> sub-record.\<close>

definition cancellation_valid :: "cancellation_doc \<Rightarrow> bool" where
  "cancellation_valid c =
     ((case cancelledBy c of None \<Rightarrow> True
        | Some by \<Rightarrow> by \<in> set [''Student'', ''Owner'', ''Admin''])
      \<and> (case refundAmount c of None \<Rightarrow> True | Some a \<Rightarrow> 0 \<le> a)
      \<and> (case refundStatus c of None \<Rightarrow> True
        | Some st \<Rightarrow> st \<in> set [''Pending'', ''Processed'', ''Failed'', ''Not Applicable'']))"

fun role_name :: "role \<Rightarrow> string" where
  "role_name Student = ''Student''"
| "role_name Parent = ''Parent''"
| "role_name HostelOwner = ''HostelOwner''"
| "role_name Admin = ''Admin''"

text \<open>
  Modelled from the spec: the middleware \<^verbatim>\<open>authorize(...roles)\<close> of
  \<^verbatim>\<open>backend/middleware/auth.js\<close> is not among the sources; a caller whose role is not
  listed "lacks rights" and is refused with \<open>Forbidden\<close>.
\<close>

definition authorize :: "role list \<Rightarrow> user \<Rightarrow> bool" where
  "authorize rs u = (role u \<in> set rs)"

section \<open>Creating a booking: \<^verbatim>\<open>router.post('/')\<close>\<close>

record food_req =
  req_selected :: bool
  req_type :: "string option"
  req_mealPlan :: "string option"

record create_req =
  req_hostelId :: nat
  req_roomType :: room_type
  req_checkInDate :: int
  req_checkOutDate :: int
  req_duration :: int
  req_foodOptions :: "food_req option"
  req_emergencyContact :: "emergency_contact option"
  req_specialRequests :: "string option"

text \<open>\<^verbatim>\<open>/^[6-9]\d{9}$/\<close>\<close>

definition valid_phone :: "string \<Rightarrow> bool" where
  "valid_phone p =
     (case p of [] \<Rightarrow> False
      | c # cs \<Rightarrow> c \<in> set ''6789'' \<and> length cs = 9 \<and> list_all (\<lambda>d. d \<in> set ''0123456789'') cs)"

text \<open>The express-validator chain; ids, room types and dates are well-formed by their
  types.\<close>

definition valid_create_req :: "create_req \<Rightarrow> bool" where
  "valid_create_req r =
     (1 \<le> req_duration r
      \<and> (case req_emergencyContact r of None \<Rightarrow> True
          | Some ec \<Rightarrow> (case ec_phone ec of None \<Rightarrow> True | Some p \<Rightarrow> valid_phone p)))"

text \<open>\<^verbatim>\<open>foodOptions && foodOptions.selected\<close>\<close>

definition food_selected :: "create_req \<Rightarrow> bool" where
  "food_selected r = (case req_foodOptions r of None \<Rightarrow> False | Some f \<Rightarrow> req_selected f)"

text \<open>Lines 112 to 123: the total of the stay, computed on binary64 numbers from the
  duration of the request read as a number; the food cost is added when the request selects
  food and the hostel offers it.\<close>

definition computePricing :: "hostel_doc \<Rightarrow> create_req \<Rightarrow> int" where
  "computePricing h r =
     (let monthlyRent = h_monthlyRent (hostel_pricing h);
          securityDeposit = or_zero (h_securityDeposit (hostel_pricing h));
          maintenanceCharges = or_zero (h_maintenanceCharges (hostel_pricing h));
          duration = nearest64 (req_duration r);
          totalAmount = plus64 (plus64 (times64 monthlyRent duration) securityDeposit)
                          (times64 maintenanceCharges duration)
      in if food_selected r \<and> food_available (hostel_foodOptions h)
         then plus64 totalAmount (times64 (food_monthlyCost (hostel_foodOptions h)) duration)
         else totalAmount)"

text \<open>\<^verbatim>\<open>new Booking({...})\<close> with the schema defaults filled in.\<close>

definition new_booking :: "user \<Rightarrow> create_req \<Rightarrow> hostel_doc \<Rightarrow> booking_doc" where
  "new_booking u r h =
     \<lparr>bookingId = [],
      student = uid u,
      hostel = req_hostelId r,
      owner = hostel_owner h,
      roomType = req_roomType r,
      checkInDate = req_checkInDate r,
      checkOutDate = req_checkOutDate r,
      duration = nearest64 (req_duration r),
      pricing = \<lparr>monthlyRent = h_monthlyRent (hostel_pricing h),
                 securityDeposit = or_zero (h_securityDeposit (hostel_pricing h)),
                 maintenanceCharges = or_zero (h_maintenanceCharges (hostel_pricing h)),
                 totalAmount = computePricing h r,
                 paidAmount = 0,
                 pendingAmount = 0\<rparr>,
      foodOptions =
        (case req_foodOptions r of
           None \<Rightarrow> \<lparr>selected = False, foodType = ''Veg'', mealPlan = ''All Meals'', monthlyCost = 0\<rparr>
         | Some f \<Rightarrow>
             if req_selected f
             then \<lparr>selected = True,
                   foodType = or_string (req_type f) (food_type (hostel_foodOptions h)),
                   mealPlan = or_string (req_mealPlan f) (food_mealPlan (hostel_foodOptions h)),
                   monthlyCost = food_monthlyCost (hostel_foodOptions h)\<rparr>
             else \<lparr>selected = False, foodType = ''Veg'', mealPlan = ''All Meals'',
                   monthlyCost = 0\<rparr>),
      status = Pending,
      payment = \<lparr>payment_method = ''Online'', transactionId = None, paymentDate = None,
                 razorpayOrderId = None, razorpayPaymentId = None, razorpaySignature = None\<rparr>,
      specialRequests = req_specialRequests r,
      confirmedAt = None,
      paidAt = None,
      cancelledAt = None,
      cancellation = \<lparr>reason = None, cancelledBy = None, refundAmount = Some 0,
                      refundStatus = Some ''Not Applicable''\<rparr>,
      emergencyContact = req_emergencyContact r\<rparr>"

text \<open>The statuses of the \<^verbatim>\<open>$in\<close> list of the duplicate check.\<close>

definition active_statuses :: "status list" where
  "active_statuses = [Pending, Confirmed, Paid, CheckedIn, Active]"

text \<open>
  The handler.  \<open>today\<close> is the start of the current day, \<open>gen\<close> the booking id the hook
  would generate.  \<^verbatim>\<open>booking.save()\<close> validates the new document, then runs the hook and
  inserts the document, where the unique index on \<^verbatim>\<open>bookingId\<close> rejects a duplicate.  A
  failed save ends in the \<^verbatim>\<open>catch\<close> block (\<open>ServerError\<close>).  The handler does not
  write the hostel.
\<close>

definition createBooking :: "user \<Rightarrow> create_req \<Rightarrow> int \<Rightarrow> string \<Rightarrow> state \<Rightarrow> response \<times> state" where
  "createBooking u r today gen s =
     (if \<not> authorize [Student] u then (Failure Forbidden, s)
      else if \<not> valid_create_req r then (Failure ValidationError, s)
      else if req_checkInDate r < today then (Failure ValidationError, s)
      else if req_checkOutDate r \<le> req_checkInDate r then (Failure ValidationError, s)
      else case findById (hostels s) (req_hostelId r) of
        None \<Rightarrow> (Failure NotFound, s)
      | Some h \<Rightarrow>
          if hostel_status h \<noteq> HostelActive \<or> \<not> isVerified h then (Failure HostelUnavailable, s)
          else (case find (\<lambda>room. rtype room = req_roomType r) (rooms h) of
            None \<Rightarrow> (Failure RoomUnavailable, s)
          | Some roomInfo \<Rightarrow>
              if availableRooms roomInfo \<le> 0 then (Failure RoomUnavailable, s)
              else (case find (\<lambda>b. student b = uid u \<and> status b \<in> set active_statuses)
                          (bookings s) of
                Some existingBooking \<Rightarrow> (Failure DuplicateActiveBooking, s)
              | None \<Rightarrow>
                  (let booking = new_booking u r h in
                   if \<not> booking_valid booking then (Failure ServerError, s)
                   else
                     (let saved = pre_save (generate_bookingId gen booking) in
                      if bookingId saved \<in> set (map bookingId (bookings s))
                      then (Failure ServerError, s)
                      else (Success, s\<lparr>bookings := bookings s @ [saved]\<rparr>))))))"

section \<open>Owner decisions: \<^verbatim>\<open>router.put('/:id/confirm')\<close> and \<^verbatim>\<open>router.put('/:id/reject')\<close>\<close>

definition confirm :: "user \<Rightarrow> nat \<Rightarrow> int \<Rightarrow> state \<Rightarrow> response \<times> state" where
  "confirm u bid now s =
     (if \<not> authorize [HostelOwner] u then (Failure Forbidden, s)
      else case findById (bookings s) bid of
        None \<Rightarrow> (Failure NotFound, s)
      | Some booking \<Rightarrow>
          if owner booking \<noteq> uid u then (Failure Forbidden, s)
          else if status booking \<noteq> Pending then (Failure InvalidTransition, s)
          else (Success, s\<lparr>bookings := (bookings s)
                  [bid := pre_save (booking\<lparr>status := Confirmed, confirmedAt := Some now\<rparr>)]\<rparr>))"

text \<open>The object literal assigned to \<^verbatim>\<open>booking.cancellation\<close> has the keys \<^verbatim>\<open>reason\<close> and
  \<^verbatim>\<open>cancelledBy\<close> only.\<close>

definition reject :: "user \<Rightarrow> nat \<Rightarrow> string option \<Rightarrow> int \<Rightarrow> state \<Rightarrow> response \<times> state" where
  "reject u bid why now s =
     (if \<not> authorize [HostelOwner] u then (Failure Forbidden, s)
      else case findById (bookings s) bid of
        None \<Rightarrow> (Failure NotFound, s)
      | Some booking \<Rightarrow>
          if owner booking \<noteq> uid u then (Failure Forbidden, s)
          else if status booking \<noteq> Pending then (Failure InvalidTransition, s)
          else (Success, s\<lparr>bookings := (bookings s)
                  [bid := pre_save (booking\<lparr>status := Rejected,
                     cancellation := \<lparr>reason = Some (or_string why ''Rejected by owner''),
                                       cancelledBy = Some ''Owner'',
                                       refundAmount = None, refundStatus = None\<rparr>,
                     cancelledAt := Some now\<rparr>)]\<rparr>))"

section \<open>Cancelling: \<^verbatim>\<open>router.put('/:id/cancel')\<close>\<close>

text \<open>\<^verbatim>\<open>bookingSchema.methods.canBeCancelled\<close>\<close>

definition canBeCancelled :: "booking_doc \<Rightarrow> bool" where
  "canBeCancelled b = (status b \<in> set [Pending, Confirmed, Paid])"

text \<open>Lines 453 to 466: the refund, and the booking as the handler changes it before the
  save.\<close>

definition cancel_refund :: "booking_doc \<Rightarrow> int \<Rightarrow> int" where
  "cancel_refund booking now =
     (if paidAmount (pricing booking) > 0 then calculateRefund booking now else 0)"

definition cancelled_booking :: "booking_doc \<Rightarrow> user \<Rightarrow> string \<Rightarrow> int \<Rightarrow> booking_doc" where
  "cancelled_booking booking u why now =
     booking\<lparr>status := Cancelled,
       cancellation :=
         \<lparr>reason = Some why,
          cancelledBy = Some (role_name (role u)),
          refundAmount = Some (cancel_refund booking now),
          refundStatus = Some (if cancel_refund booking now > 0
                               then ''Pending'' else ''Not Applicable'')\<rparr>,
       cancelledAt := Some now\<rparr>"

definition add_available :: "int \<Rightarrow> room_doc \<Rightarrow> room_doc" where
  "add_available n room = room\<lparr>availableRooms := availableRooms room + n\<rparr>"

text \<open>
  Lines 469 to 477, "Update hostel room availability": the room of the booking's type gets
  \<^verbatim>\<open>availableRooms += 1\<close> and the hostel is saved; nothing happens when the hostel or
  the room type is not found.  The hostel schema validates \<^verbatim>\<open>availableRooms\<close> with
  \<^verbatim>\<open>min: 0\<close>; a failed save throws into the \<^verbatim>\<open>catch\<close> block.
\<close>

definition release_room :: "nat \<Rightarrow> room_type \<Rightarrow> state \<Rightarrow> response \<times> state" where
  "release_room hid rt s =
     (case findById (hostels s) hid of
        None \<Rightarrow> (Success, s)
      | Some h \<Rightarrow>
          (case findIndex (\<lambda>room. rtype room = rt) (rooms h) of
             None \<Rightarrow> (Success, s)
           | Some roomIndex \<Rightarrow>
               (let h' = h\<lparr>rooms := (rooms h)
                           [roomIndex := add_available 1 (rooms h ! roomIndex)]\<rparr>
                in if availableRooms (rooms h' ! roomIndex) < 0
                   then (Failure ServerError, s)
                   else (Success, s\<lparr>hostels := (hostels s)[hid := h']\<rparr>))))"

text \<open>
  The handler.  The booking is saved first (the \<^verbatim>\<open>cancellation\<close> validators run on that
  save); the hostel is loaded and saved afterwards, so a failure there leaves the booking
  cancelled.
\<close>

definition cancel :: "user \<Rightarrow> nat \<Rightarrow> string \<Rightarrow> int \<Rightarrow> state \<Rightarrow> response \<times> state" where
  "cancel u bid why now s =
     (if why = [] then (Failure ValidationError, s)
      else case findById (bookings s) bid of
        None \<Rightarrow> (Failure NotFound, s)
      | Some booking \<Rightarrow>
          if \<not> (student booking = uid u \<or> owner booking = uid u \<or> role u = Admin)
          then (Failure Forbidden, s)
          else if \<not> canBeCancelled booking then (Failure InvalidTransition, s)
          else if \<not> cancellation_valid (cancellation (cancelled_booking booking u why now))
          then (Failure ServerError, s)
          else release_room (hostel booking) (roomType booking)
                 (s\<lparr>bookings := (bookings s)
                      [bid := pre_save (cancelled_booking booking u why now)]\<rparr>))"

section \<open>Verifying a payment: \<^verbatim>\<open>router.post('/:id/payment/verify')\<close>\<close>

text \<open>
  \<open>hmac key msg\<close> stands for
  \<^verbatim>\<open>crypto.createHmac('sha256', key).update(msg).digest('hex')\<close> and \<open>secret\<close> for
  \<^verbatim>\<open>process.env.RAZORPAY_KEY_SECRET\<close>.
\<close>

record verify_req =
  razorpay_payment_id :: string
  razorpay_order_id :: string
  razorpay_signature :: string

definition expectedSignature :: "(string \<Rightarrow> string \<Rightarrow> string) \<Rightarrow> string \<Rightarrow> verify_req \<Rightarrow> string" where
  "expectedSignature hmac secret r =
     hmac secret (razorpay_order_id r @ ''|'' @ razorpay_payment_id r)"

text \<open>Lines 624 to 636: the booking as the handler changes it before the save.\<close>

definition paid_booking :: "booking_doc \<Rightarrow> verify_req \<Rightarrow> int \<Rightarrow> booking_doc" where
  "paid_booking booking r now =
     booking\<lparr>status := Paid,
       pricing := (pricing booking)\<lparr>paidAmount := totalAmount (pricing booking),
                                      pendingAmount := 0\<rparr>,
       payment := (payment booking)\<lparr>
          payment_method := ''Online'',
          transactionId := Some (razorpay_payment_id r),
          paymentDate := Some now,
          razorpayPaymentId := Some (razorpay_payment_id r),
          razorpaySignature := Some (razorpay_signature r)\<rparr>,
       paidAt := Some now\<rparr>"

text \<open>
  Lines 640 to 649, "Update hostel room availability": \<^verbatim>\<open>availableRooms -= 1\<close> and
  \<^verbatim>\<open>currentOccupancy += 1\<close>, then the hostel is saved; both fields have a \<^verbatim>\<open>min: 0\<close>
  validator.
\<close>

definition occupy_room :: "nat \<Rightarrow> room_type \<Rightarrow> state \<Rightarrow> response \<times> state" where
  "occupy_room hid rt s =
     (case findById (hostels s) hid of
        None \<Rightarrow> (Success, s)
      | Some h \<Rightarrow>
          (case findIndex (\<lambda>room. rtype room = rt) (rooms h) of
             None \<Rightarrow> (Success, s)
           | Some roomIndex \<Rightarrow>
               (let h' = h\<lparr>rooms := (rooms h)
                           [roomIndex := add_available (- 1) (rooms h ! roomIndex)],
                          currentOccupancy := currentOccupancy h + 1\<rparr>
                in if availableRooms (rooms h' ! roomIndex) < 0 \<or> currentOccupancy h' < 0
                   then (Failure ServerError, s)
                   else (Success, s\<lparr>hostels := (hostels s)[hid := h']\<rparr>))))"

text \<open>
  The handler.  There is no check of the booking's status.  The booking is saved first
  (\<^verbatim>\<open>paidAmount\<close> has a \<^verbatim>\<open>min: 0\<close> validator), the hostel afterwards.
\<close>

definition verifyPayment ::
  "(string \<Rightarrow> string \<Rightarrow> string) \<Rightarrow> string \<Rightarrow> user \<Rightarrow> nat \<Rightarrow> verify_req \<Rightarrow> int \<Rightarrow> state
     \<Rightarrow> response \<times> state" where
  "verifyPayment hmac secret u bid r now s =
     (if \<not> authorize [Student] u then (Failure Forbidden, s)
      else if razorpay_payment_id r = [] \<or> razorpay_order_id r = [] \<or> razorpay_signature r = []
      then (Failure ValidationError, s)
      else case findById (bookings s) bid of
        None \<Rightarrow> (Failure NotFound, s)
      | Some booking \<Rightarrow>
          if student booking \<noteq> uid u then (Failure Forbidden, s)
          else if expectedSignature hmac secret r \<noteq> razorpay_signature r
          then (Failure InvalidSignature, s)
          else if paidAmount (pricing (paid_booking booking r now)) < 0 then (Failure ServerError, s)
          else occupy_room (hostel booking) (roomType booking)
                 (s\<lparr>bookings := (bookings s)[bid := pre_save (paid_booking booking r now)]\<rparr>))"

section \<open>Sequences of operations\<close>

datatype operation =
    CreateBooking user create_req int string
  | Confirm user nat int
  | Reject user nat "string option" int
  | VerifyPayment user nat verify_req int
  | Cancel user nat string int

fun step :: "(string \<Rightarrow> string \<Rightarrow> string) \<Rightarrow> string \<Rightarrow> state \<Rightarrow> operation \<Rightarrow> response \<times> state" where
  "step hmac secret s (CreateBooking u r today gen) = createBooking u r today gen s"
| "step hmac secret s (Confirm u bid now) = confirm u bid now s"
| "step hmac secret s (Reject u bid why now) = reject u bid why now s"
| "step hmac secret s (VerifyPayment u bid r now) = verifyPayment hmac secret u bid r now s"
| "step hmac secret s (Cancel u bid why now) = cancel u bid why now s"

fun run :: "(string \<Rightarrow> string \<Rightarrow> string) \<Rightarrow> string \<Rightarrow> state \<Rightarrow> operation list \<Rightarrow> state" where
  "run hmac secret s [] = s"
| "run hmac secret s (x # xs) = run hmac secret (snd (step hmac secret s x)) xs"

section \<open>Invariants and counts\<close>


text \<open>The bookings of a student in a status that is not terminal.\<close>

definition terminal_statuses :: "status list" where
  "terminal_statuses = [Completed, Cancelled, Rejected, Expired]"

definition non_terminal_count :: "state \<Rightarrow> nat \<Rightarrow> nat" where
  "non_terminal_count s sid =
     length (filter (\<lambda>b. student b = sid \<and> status b \<notin> set terminal_statuses) (bookings s))"

text \<open>Bounds on the inventory counters.\<close>

definition rooms_nonneg :: "state \<Rightarrow> bool" where
  "rooms_nonneg s =
     list_all (\<lambda>h. list_all (\<lambda>room. 0 \<le> availableRooms room) (rooms h)) (hostels s)"

definition rooms_within_total :: "state \<Rightarrow> bool" where
  "rooms_within_total s =
     list_all (\<lambda>h. list_all (\<lambda>room. 0 \<le> availableRooms room
                                   \<and> availableRooms room \<le> totalRooms room) (rooms h))
       (hostels s)"

definition total_rooms :: "state \<Rightarrow> int list list" where
  "total_rooms s = map (\<lambda>h. map totalRooms (rooms h)) (hostels s)"

definition available_rooms :: "state \<Rightarrow> int list list" where
  "available_rooms s = map (\<lambda>h. map availableRooms (rooms h)) (hostels s)"

text \<open>What the pre-save hook establishes for every stored booking.\<close>

definition pending_consistent :: "booking_doc \<Rightarrow> bool" where
  "pending_consistent b =
     (pendingAmount (pricing b) = totalAmount (pricing b) - paidAmount (pricing b))"

section \<open>Example data\<close>

text \<open>A verified hostel of owner 1 with one room type, rent 1000, deposit 500, no
  maintenance charge, and a food cost of 2000 on record although food is not offered.\<close>

definition example_hostel :: "int \<Rightarrow> int \<Rightarrow> hostel_doc" where
  "example_hostel t a =
     \<lparr>hostel_owner = 1,
      hostel_pricing = \<lparr>h_monthlyRent = 1000, h_securityDeposit = Some 500,
                        h_maintenanceCharges = Some 0\<rparr>,
      rooms = [\<lparr>rtype = Single, totalRooms = t, availableRooms = a\<rparr>],
      hostel_foodOptions = \<lparr>food_available = False, food_type = ''Veg'',
                            food_mealPlan = ''All Meals'', food_monthlyCost = 2000\<rparr>,
      hostel_status = HostelActive,
      isVerified = True,
      currentOccupancy = 0\<rparr>"

definition example_student :: user where
  "example_student = \<lparr>uid = 7, role = Student\<rparr>"

definition example_owner :: user where
  "example_owner = \<lparr>uid = 1, role = HostelOwner\<rparr>"

text \<open>A stay of six months that starts on day 100 after the epoch.\<close>

definition example_req :: "bool \<Rightarrow> create_req" where
  "example_req food =
     \<lparr>req_hostelId = 0, req_roomType = Single,
      req_checkInDate = 8640000000, req_checkOutDate = 24192000000,
      req_duration = 6,
      req_foodOptions = Some \<lparr>req_selected = food, req_type = None, req_mealPlan = None\<rparr>,
      req_emergencyContact = None,
      req_specialRequests = None\<rparr>"

text \<open>A stored booking of the example student at the example hostel: the document of the
  example request with an id, in the given status.\<close>

definition example_booking :: "bool \<Rightarrow> status \<Rightarrow> booking_doc" where
  "example_booking food st =
     (pre_save (generate_bookingId ''RV2611020001''
        (new_booking example_student (example_req food) (example_hostel 1 1))))\<lparr>status := st\<rparr>"

definition example_state :: "int \<Rightarrow> int \<Rightarrow> booking_doc list \<Rightarrow> state" where
  "example_state t a bs = \<lparr>hostels = [example_hostel t a], bookings = bs\<rparr>"

text \<open>In the examples any function of key and message can stand for the keyed hash: the
  handler only compares its result with the signature of the request.\<close>

definition example_hmac :: "string \<Rightarrow> string \<Rightarrow> string" where
  "example_hmac key msg = key @ msg"

definition example_verify_req :: "string \<Rightarrow> verify_req" where
  "example_verify_req sig =
     \<lparr>razorpay_payment_id = ''pay_1'', razorpay_order_id = ''order_1'',
      razorpay_signature = sig\<rparr>"

definition example_valid_req :: verify_req where
  "example_valid_req = example_verify_req ''s3cretorder_1|pay_1''"

text \<open>The example booking after its payment has been verified at time 4.\<close>

definition example_paid_booking :: booking_doc where
  "example_paid_booking =
     (example_booking False Paid)\<lparr>
        pricing := (pricing (example_booking False Paid))\<lparr>paidAmount := 6500, pendingAmount := 0\<rparr>,
        payment := \<lparr>payment_method = ''Online'', transactionId = Some ''pay_1'', paymentDate = Some 4,
                     razorpayOrderId = None, razorpayPaymentId = Some ''pay_1'',
                     razorpaySignature = Some ''s3cretorder_1|pay_1''\<rparr>,
        paidAt := Some 4\<rparr>"

text \<open>Confirmation by the owner, then payment, of the stored booking 0.\<close>

definition example_operations :: "operation list" where
  "example_operations =
     [Confirm example_owner 0 3,
      VerifyPayment example_student 0 example_valid_req 4]"


section \<open>Evaluating the examples\<close>

text \<open>The price without its local names.\<close>

lemma computePricing_unfold:
  "computePricing h r =
     (if food_selected r \<and> food_available (hostel_foodOptions h)
      then plus64
             (plus64
                (plus64 (times64 (h_monthlyRent (hostel_pricing h)) (nearest64 (req_duration r)))
                   (or_zero (h_securityDeposit (hostel_pricing h))))
                (times64 (or_zero (h_maintenanceCharges (hostel_pricing h)))
                   (nearest64 (req_duration r))))
             (times64 (food_monthlyCost (hostel_foodOptions h)) (nearest64 (req_duration r)))
      else plus64
             (plus64 (times64 (h_monthlyRent (hostel_pricing h)) (nearest64 (req_duration r)))
                (or_zero (h_securityDeposit (hostel_pricing h))))
             (times64 (or_zero (h_maintenanceCharges (hostel_pricing h)))
                (nearest64 (req_duration r))))"
  by (simp only: computePricing_def Let_def)

lemmas example_defs = example_hostel_def example_state_def example_student_def
  example_owner_def example_req_def example_booking_def

lemmas create_defs = createBooking_def authorize_def valid_create_req_def findById_def
  active_statuses_def generate_bookingId_def new_booking_def booking_valid_def pre_save_def
  computePricing_unfold food_selected_def or_zero_def or_string_def
  plus64_def times64_def nearest64_def round53_def round_shift_def bit_length.simps

lemmas confirm_defs = confirm_def authorize_def findById_def

lemmas reject_defs = reject_def authorize_def findById_def or_string_def

lemmas cancel_defs = cancel_def canBeCancelled_def cancellation_valid_def cancelled_booking_def
  cancel_refund_def release_room_def add_available_def findById_def calculateRefund_def
  daysUntilCheckIn_def

lemmas refund_defs = computeRefund_def refundPercentage_def lit_0_9_def lit_0_7_def lit_0_5_def
  lit_0_2_def lit_0_def floor_times_def round53_def round_shift_def bit_length.simps Let_def

lemmas verify_defs = verifyPayment_def authorize_def findById_def expectedSignature_def
  paid_booking_def occupy_room_def add_available_def pre_save_def example_hmac_def
  example_verify_req_def example_valid_req_def

lemma example_booking_record:
  "example_booking food st =
     \<lparr>bookingId = ''RV2611020001'', student = 7, hostel = 0, owner = 1, roomType = Single,
      checkInDate = 8640000000, checkOutDate = 24192000000, duration = 6,
      pricing = \<lparr>monthlyRent = 1000, securityDeposit = 500, maintenanceCharges = 0,
                 totalAmount = 6500, paidAmount = 0, pendingAmount = 6500\<rparr>,
      foodOptions = (if food
        then \<lparr>selected = True, foodType = ''Veg'', mealPlan = ''All Meals'', monthlyCost = 2000\<rparr>
        else \<lparr>selected = False, foodType = ''Veg'', mealPlan = ''All Meals'', monthlyCost = 0\<rparr>),
      status = st,
      payment = \<lparr>payment_method = ''Online'', transactionId = None, paymentDate = None,
                 razorpayOrderId = None, razorpayPaymentId = None, razorpaySignature = None\<rparr>,
      specialRequests = None, confirmedAt = None, paidAt = None, cancelledAt = None,
      cancellation = \<lparr>reason = None, cancelledBy = None, refundAmount = Some 0,
                      refundStatus = Some ''Not Applicable''\<rparr>,
      emergencyContact = None\<rparr>"
  by (simp add: example_defs create_defs)

lemma example_booking_simps:
  "status (example_booking food st) = st"
  "student (example_booking food st) = 7"
  "owner (example_booking food st) = 1"
  "hostel (example_booking food st) = 0"
  "roomType (example_booking food st) = Single"
  "duration (example_booking food st) = 6"
  "pricing (example_booking food st) =
     \<lparr>monthlyRent = 1000, securityDeposit = 500, maintenanceCharges = 0,
      totalAmount = 6500, paidAmount = 0, pendingAmount = 6500\<rparr>"
  "selected (foodOptions (example_booking food st)) = food"
  "monthlyCost (foodOptions (example_booking food st)) = (if food then 2000 else 0)"
  by (simp_all add: example_defs create_defs Let_def)

lemma example_create:
  "createBooking example_student (example_req food) 0 ''RV2611020001'' (example_state 1 1 [])
     = (Failure ServerError, example_state 1 1 [])"
  by (simp add: example_defs create_defs Let_def)

lemma example_create_full:
  "createBooking example_student (example_req food) 0 ''RV2611020001'' (example_state 1 0 [])
     = (Failure RoomUnavailable, example_state 1 0 [])"
  by (simp add: example_defs create_defs Let_def)

lemma example_create_duplicate:
  "createBooking example_student (example_req False) 0 ''RV2611020002''
     (example_state 1 1 [example_booking False Confirmed])
     = (Failure DuplicateActiveBooking, example_state 1 1 [example_booking False Confirmed])"
  by (simp add: example_defs create_defs Let_def)

lemma example_create_after_checkout:
  "createBooking example_student (example_req False) 0 ''RV2611020002''
     (example_state 1 1 [example_booking False CheckedOut])
     = (Failure ServerError, example_state 1 1 [example_booking False CheckedOut])"
  by (simp add: example_defs create_defs Let_def)

lemma example_confirm:
  "confirm example_owner 0 3 (example_state t a [example_booking food Pending])
     = (Success, example_state t a
          [(example_booking food Pending)\<lparr>status := Confirmed, confirmedAt := Some 3\<rparr>])"
  by (simp add: confirm_defs example_state_def example_owner_def example_booking_simps)
     (simp add: example_booking_def pre_save_def)

lemma example_confirm_paid:
  "confirm example_owner 0 3 (example_state t a [example_booking food Paid])
     = (Failure InvalidTransition, example_state t a [example_booking food Paid])"
  by (simp add: confirm_defs example_state_def example_owner_def example_booking_simps)

lemma example_reject:
  "reject example_owner 0 None 5 (example_state 2 1 [example_booking False Pending])
     = (Success, example_state 2 1 [(example_booking False Pending)\<lparr>status := Rejected,
          cancellation := \<lparr>reason = Some ''Rejected by owner'', cancelledBy = Some ''Owner'',
             refundAmount = None, refundStatus = None\<rparr>,
          cancelledAt := Some 5\<rparr>])"
  by (simp add: reject_defs example_state_def example_owner_def example_booking_simps)
     (simp add: example_booking_def pre_save_def)

lemma example_reject_paid:
  "reject example_owner 0 None 5 (example_state 2 1 [example_booking False Paid])
     = (Failure InvalidTransition, example_state 2 1 [example_booking False Paid])"
  by (simp add: reject_defs example_state_def example_owner_def example_booking_simps)

lemma example_cancel_completed:
  "cancel example_student 0 ''changed plans'' 3 (example_state t a [example_booking food Completed])
     = (Failure InvalidTransition, example_state t a [example_booking food Completed])"
  by (simp add: cancel_defs example_state_def example_student_def example_booking_simps)

lemma example_cancel_pending:
  "cancel example_student 0 ''changed plans'' 5 (example_state 1 1 [example_booking False Pending])
   = (Success, example_state 1 2 [(example_booking False Pending)\<lparr>status := Cancelled,
          cancellation := \<lparr>reason = Some ''changed plans'', cancelledBy = Some ''Student'',
             refundAmount = Some 0, refundStatus = Some ''Not Applicable''\<rparr>,
          cancelledAt := Some 5\<rparr>])"
  by (simp add: cancel_defs example_student_def example_state_def example_booking_record
       pre_save_def)
     (simp add: example_hostel_def add_available_def)

lemma example_cancel_paid:
  "cancel example_student 0 ''changed plans'' 6912000000
     \<lparr>hostels = [(example_hostel 2 1)\<lparr>currentOccupancy := 1\<rparr>],
      bookings = [example_paid_booking\<lparr>confirmedAt := Some 3\<rparr>]\<rparr>
   = (Success,
      \<lparr>hostels = [(example_hostel 2 2)\<lparr>currentOccupancy := 1\<rparr>],
       bookings = [example_paid_booking\<lparr>confirmedAt := Some 3, status := Cancelled,
          cancellation := \<lparr>reason = Some ''changed plans'', cancelledBy = Some ''Student'',
             refundAmount = Some 4550, refundStatus = Some ''Pending''\<rparr>,
          cancelledAt := Some 6912000000\<rparr>]\<rparr>)"
  by (simp add: cancel_defs example_student_def example_paid_booking_def example_booking_record
       pre_save_def refund_defs)
     (simp add: example_hostel_def add_available_def)

lemma example_verify_pending:
  "verifyPayment example_hmac ''s3cret'' example_student 0 example_valid_req 4
     (example_state 2 2 [example_booking False Pending])
   = (Success, \<lparr>hostels = [(example_hostel 2 1)\<lparr>currentOccupancy := 1\<rparr>],
                 bookings = [example_paid_booking]\<rparr>)"
  by (simp add: verify_defs example_state_def example_student_def example_booking_simps Let_def)
     (simp add: example_hostel_def example_paid_booking_def example_booking_record
        add_available_def)

lemma example_verify_replay:
  "verifyPayment example_hmac ''s3cret'' example_student 0 example_valid_req 4
     \<lparr>hostels = [(example_hostel 2 1)\<lparr>currentOccupancy := 1\<rparr>], bookings = [example_paid_booking]\<rparr>
   = (Success, \<lparr>hostels = [(example_hostel 2 0)\<lparr>currentOccupancy := 2\<rparr>],
                 bookings = [example_paid_booking]\<rparr>)"
  by (simp add: verify_defs example_student_def example_paid_booking_def example_booking_simps
        Let_def)
     (simp add: example_hostel_def example_booking_record add_available_def)

lemma example_release:
  "release_room 0 Single (example_state 1 1 bs) = (Success, example_state 1 2 bs)"
  by (simp add: release_room_def add_available_def findById_def example_state_def
      example_hostel_def)

lemma example_run_paid:
  "run example_hmac ''s3cret'' (example_state 2 2 [example_booking False Pending])
     example_operations
     = \<lparr>hostels = [(example_hostel 2 1)\<lparr>currentOccupancy := 1\<rparr>],
        bookings = [example_paid_booking\<lparr>confirmedAt := Some 3\<rparr>]\<rparr>"
  by (simp add: example_operations_def example_confirm)
     (simp add: verify_defs example_state_def example_student_def example_booking_record
        example_paid_booking_def example_hostel_def Let_def)

lemma example_run_replay:
  "run example_hmac ''s3cret'' (example_state 1 1 [example_booking False Pending])
     (example_operations @ [VerifyPayment example_student 0 example_valid_req 5])
     = \<lparr>hostels = [(example_hostel 1 0)\<lparr>currentOccupancy := 1\<rparr>],
        bookings = [example_paid_booking\<lparr>confirmedAt := Some 3, paidAt := Some 5,
          payment := (payment example_paid_booking)\<lparr>paymentDate := Some 5\<rparr>\<rparr>]\<rparr>"
  by (simp add: example_operations_def example_confirm)
     (simp add: verify_defs example_state_def example_student_def example_booking_record
        example_paid_booking_def example_hostel_def Let_def)

section \<open>Lists and lookups\<close>

lemma list_all_update_nth:
  assumes "list_all P xs" and "P (xs[i := x] ! i)"
  shows "list_all P (xs[i := x])"
proof (cases "i < length xs")
  case True
  then have "P x" using assms(2) by simp
  with assms(1) show ?thesis
    using set_update_subset_insert [of xs i x] by (auto simp add: list_all_iff)
next
  case False
  then show ?thesis using assms(1) by (simp add: list_update_beyond)
qed

lemma list_all_update:
  assumes "list_all P xs" and "P x"
  shows "list_all P (xs[i := x])"
  using assms set_update_subset_insert [of xs i x] by (auto simp add: list_all_iff)

lemma findById_Some_iff: "findById xs i = Some x \<longleftrightarrow> i < length xs \<and> xs ! i = x"
  by (auto simp add: findById_def)

lemma findById_update:
  "findById (xs[i := x]) j = (if j = i \<and> i < length xs then Some x else findById xs j)"
  by (auto simp add: findById_def)

lemma findById_list_all: "findById xs i = Some x \<Longrightarrow> list_all P xs \<Longrightarrow> P x"
  by (auto simp add: findById_def list_all_length split: if_splits)

lemma findIndex_Some_less: "findIndex P xs = Some i \<Longrightarrow> i < length xs"
  by (induction xs arbitrary: i) (auto split: if_splits)

section \<open>The refund policy\<close>

text \<open>The literals are the binary64 values nearest to 9/10, 7/10, 1/2 and 2/10: each has a
  53-bit significand and is within half a unit in the last place.\<close>

lemma literals_nearest:
  "\<bar>int (significand lit_0_9) * 10 - 9 * 2 ^ scale lit_0_9\<bar> * 2 \<le> 10"
  "\<bar>int (significand lit_0_7) * 10 - 7 * 2 ^ scale lit_0_7\<bar> * 2 \<le> 10"
  "int (significand lit_0_5) * 10 = 5 * 2 ^ scale lit_0_5"
  "\<bar>int (significand lit_0_2) * 10 - 2 * 2 ^ scale lit_0_2\<bar> * 2 \<le> 10"
  "2 ^ 52 \<le> significand lit_0_9 \<and> significand lit_0_9 < 2 ^ 53"
  "2 ^ 52 \<le> significand lit_0_7 \<and> significand lit_0_7 < 2 ^ 53"
  "2 ^ 52 \<le> significand lit_0_2 \<and> significand lit_0_2 < 2 ^ 53"
  by (simp_all add: lit_0_9_def lit_0_7_def lit_0_5_def lit_0_2_def)

text \<open>Rounding takes \<open>n / 2 ^ s\<close> to a nearest integer.\<close>

lemma round_shift_nearest:
  "2 * \<bar>int (round_shift n s * 2 ^ s) - int n\<bar> \<le> 2 ^ s"
proof -
  define q where "q = n div 2 ^ s"
  define r where "r = n mod 2 ^ s"
  have n: "n = q * 2 ^ s + r"
    unfolding q_def r_def by (rule div_mult_mod_eq [symmetric])
  have r: "r < 2 ^ s"
    by (simp add: r_def)
  have "(round_shift n s = q \<and> 2 * r \<le> 2 ^ s) \<or> (round_shift n s = q + 1 \<and> 2 ^ s \<le> 2 * r)"
    unfolding q_def r_def by (auto simp add: round_shift_def Let_def)
  then show ?thesis
  proof (elim disjE conjE)
    assume down: "round_shift n s = q" and "2 * r \<le> 2 ^ s"
    from this(2) have "int (2 * r) \<le> int (2 ^ s)"
      by (simp only: of_nat_le_iff)
    then have "2 * int r \<le> 2 ^ s" by simp
    moreover have "int (q * 2 ^ s) - int (q * 2 ^ s + r) = - int r"
      by simp
    ultimately show ?thesis
      unfolding down by (simp add: n)
  next
    assume up: "round_shift n s = q + 1" and "2 ^ s \<le> 2 * r"
    from this(2) have "int (2 ^ s) \<le> int (2 * r)"
      by (simp only: of_nat_le_iff)
    then have half: "2 ^ s \<le> 2 * int r" by simp
    from r have "int r < int (2 ^ s)"
      by (simp only: of_nat_less_iff)
    then have less: "int r < 2 ^ s" by simp
    have "int ((q + 1) * 2 ^ s) - int (q * 2 ^ s + r) = 2 ^ s - int r"
      by (simp add: algebra_simps)
    with half less show ?thesis
      unfolding up by (simp add: n)
  qed
qed

text \<open>An integer below \<open>2 ^ 53\<close> is a binary64 value, so rounding leaves it alone.\<close>

lemma bit_length_le: "n < 2 ^ k \<Longrightarrow> bit_length n \<le> k"
proof (induction k arbitrary: n)
  case 0
  then show ?case by (simp add: bit_length.simps)
next
  case (Suc k)
  show ?case
  proof (cases "n = 0")
    case True
    then show ?thesis by (simp add: bit_length.simps)
  next
    case False
    from Suc.prems have "n div 2 < 2 ^ k" by simp
    then have "bit_length (n div 2) \<le> k" by (rule Suc.IH)
    with False show ?thesis by (subst bit_length.simps) simp
  qed
qed

lemma round_shift_0: "round_shift n 0 = n"
  by (simp add: round_shift_def)

lemma round53_exact: "n < 2 ^ 53 \<Longrightarrow> round53 n = n"
  using bit_length_le [of n 53] by (simp add: round53_def round_shift_0)

lemma nearest64_exact:
  assumes "\<bar>a\<bar> < 2 ^ 53"
  shows "nearest64 a = a"
proof -
  from assms have "nat \<bar>a\<bar> < 2 ^ 53"
    by (simp add: nat_less_iff)
  then have "round53 (nat \<bar>a\<bar>) = nat \<bar>a\<bar>"
    by (rule round53_exact)
  then show ?thesis
    by (simp add: nearest64_def mult_sgn_abs)
qed

text \<open>The tiers of the code are those of the table; the 50% tier and the 0% tier compute the
  exact floor, and the examples of the specification come out as stated.\<close>

lemma refund_tiers:
  "refund_percent_spec days =
     (if days > 30 then 90 else if days > 15 then 70 else if days > 7 then 50
      else if days > 0 then 20 else 0)"
  by (simp add: refund_percent_spec_def)

lemma computeRefund_half:
  assumes "0 \<le> amount" "amount < 2 ^ 53" "7 < days" "days \<le> 15"
  shows "computeRefund amount days = computeRefund_spec amount days"
proof -
  from assms(1,2) have "nat amount < 2 ^ 53"
    by (simp add: nat_less_iff)
  then have "round53 (nat amount) = nat amount"
    by (rule round53_exact)
  moreover have "sgn amount * amount = amount"
    using assms(1) by (cases "amount = 0") simp_all
  ultimately have "floor_times amount lit_0_5 = amount div 2"
    using assms(1) by (auto simp add: lit_0_5_def floor_times_def)
  then have "computeRefund amount days = amount div 2"
    using assms(3,4) by (simp add: computeRefund_def refundPercentage_def)
  moreover have "computeRefund_spec amount days = amount div 2"
    using assms(3,4) by (simp add: computeRefund_spec_def refund_percent_spec_def)
  ultimately show ?thesis by simp
qed

lemma computeRefund_nothing:
  assumes "days \<le> 0"
  shows "computeRefund amount days = 0" and "computeRefund_spec amount days = 0"
  using assms
  by (simp_all add: computeRefund_def refundPercentage_def lit_0_def floor_times_def round53_def
      round_shift_def bit_length.simps computeRefund_spec_def refund_percent_spec_def)

lemma computeRefund_examples:
  "computeRefund 10000 35 = 9000" "computeRefund 10000 10 = 5000" "computeRefund 10000 (- 1) = 0"
  "computeRefund 20000 20 = 14000"
  by (simp_all add: refund_defs)

text \<open>
  Claim C5.  The claim asks for \<open>floor (paidAmount * pct)\<close> with \<open>pct\<close> = 70% between 16 and
  30 days before check-in.  \<^verbatim>\<open>Math.floor(90 * 0.7)\<close> is 62, since the binary64 product
  is 62.99999999999999, whereas 70% of 90 is 63; likewise 21000 gives 14699 instead of
  14700, also when \<open>calculateRefund\<close> is called on a booking with that paid amount 20 days
  before its check-in.
\<close>

theorem computeRefund_seventy_percent_tier:
  "computeRefund 90 20 = 62 \<and> computeRefund_spec 90 20 = 63
   \<and> computeRefund 21000 20 = 14699 \<and> computeRefund_spec 21000 20 = 14700
   \<and> calculateRefund
        (example_paid_booking\<lparr>pricing := (pricing example_paid_booking)
           \<lparr>totalAmount := 21000, paidAmount := 21000\<rparr>\<rparr>) 6912000000 = 14699"
  by (simp add: calculateRefund_def daysUntilCheckIn_def example_paid_booking_def
      example_booking_record computeRefund_def refundPercentage_def lit_0_7_def floor_times_def
      round53_def round_shift_def bit_length.simps Let_def computeRefund_spec_def
      refund_percent_spec_def)

section \<open>Creating a booking\<close>

text \<open>The document that the handler builds has no booking id, so its save fails on the
  \<^verbatim>\<open>required\<close> check: every path of the handler ends in a failure and leaves the state as
  it was.\<close>

lemma new_booking_invalid: "\<not> booking_valid (new_booking u r h)"
  by (simp add: booking_valid_def new_booking_def)

lemma createBooking_result:
  "createBooking u r today gen s =
     (if role u \<noteq> Student then (Failure Forbidden, s)
      else if \<not> valid_create_req r then (Failure ValidationError, s)
      else if req_checkInDate r < today then (Failure ValidationError, s)
      else if req_checkOutDate r \<le> req_checkInDate r then (Failure ValidationError, s)
      else case findById (hostels s) (req_hostelId r) of
        None \<Rightarrow> (Failure NotFound, s)
      | Some h \<Rightarrow>
          if hostel_status h \<noteq> HostelActive \<or> \<not> isVerified h then (Failure HostelUnavailable, s)
          else (case find (\<lambda>room. rtype room = req_roomType r) (rooms h) of
            None \<Rightarrow> (Failure RoomUnavailable, s)
          | Some roomInfo \<Rightarrow>
              if availableRooms roomInfo \<le> 0 then (Failure RoomUnavailable, s)
              else (case find (\<lambda>b. student b = uid u \<and> status b \<in> set active_statuses)
                          (bookings s) of
                Some existingBooking \<Rightarrow> (Failure DuplicateActiveBooking, s)
              | None \<Rightarrow> (Failure ServerError, s))))"
  by (auto simp add: createBooking_def authorize_def Let_def new_booking_invalid
      split: option.splits)

lemma createBooking_fails: "\<exists>e. createBooking u r today gen s = (Failure e, s)"
  by (simp add: createBooking_result split: option.splits)

lemma createBooking_state: "snd (createBooking u r today gen s) = s"
  using createBooking_fails [of u r today gen s] by auto

lemma createBooking_not_Success: "fst (createBooking u r today gen s) \<noteq> Success"
  using createBooking_fails [of u r today gen s] by auto

lemma createBooking_RoomUnavailable:
  assumes "role u = Student" "valid_create_req r"
    "today \<le> req_checkInDate r" "req_checkInDate r < req_checkOutDate r"
    "findById (hostels s) (req_hostelId r) = Some h"
    "hostel_status h = HostelActive" "isVerified h"
    "case find (\<lambda>room. rtype room = req_roomType r) (rooms h) of
       None \<Rightarrow> True | Some roomInfo \<Rightarrow> availableRooms roomInfo \<le> 0"
  shows "createBooking u r today gen s = (Failure RoomUnavailable, s)"
  using assms by (auto simp add: createBooking_result split: option.splits)

lemma find_active_Some:
  assumes "list_ex (\<lambda>b. student b = sid \<and> status b \<in> set active_statuses) bs"
  shows "\<exists>b. find (\<lambda>b. student b = sid \<and> status b \<in> set active_statuses) bs = Some b"
proof -
  from assms have "find (\<lambda>b. student b = sid \<and> status b \<in> set active_statuses) bs \<noteq> None"
    by (auto simp add: find_None_iff list_ex_iff)
  then show ?thesis by blast
qed

lemma find_active_None_iff:
  "find (\<lambda>b. student b = sid \<and> status b \<in> set active_statuses) bs = None
     \<longleftrightarrow> \<not> list_ex (\<lambda>b. student b = sid \<and> status b \<in> set active_statuses) bs"
  by (auto simp add: find_None_iff list_ex_iff)

lemma createBooking_Duplicate:
  assumes "role u = Student" "valid_create_req r"
    "today \<le> req_checkInDate r" "req_checkInDate r < req_checkOutDate r"
    "findById (hostels s) (req_hostelId r) = Some h"
    "hostel_status h = HostelActive" "isVerified h"
    "find (\<lambda>room. rtype room = req_roomType r) (rooms h) = Some roomInfo"
    "0 < availableRooms roomInfo"
    "list_ex (\<lambda>b. student b = uid u \<and> status b \<in> set active_statuses) (bookings s)"
  shows "createBooking u r today gen s = (Failure DuplicateActiveBooking, s)"
proof -
  from find_active_Some [OF assms(10)] obtain b where
    "find (\<lambda>b. student b = uid u \<and> status b \<in> set active_statuses) (bookings s) = Some b"
    by blast
  with assms show ?thesis
    by (simp add: createBooking_result)
qed

lemma createBooking_ServerError:
  assumes "role u = Student" "valid_create_req r"
    "today \<le> req_checkInDate r" "req_checkInDate r < req_checkOutDate r"
    "findById (hostels s) (req_hostelId r) = Some h"
    "hostel_status h = HostelActive" "isVerified h"
    "find (\<lambda>room. rtype room = req_roomType r) (rooms h) = Some roomInfo"
    "0 < availableRooms roomInfo"
    "\<not> list_ex (\<lambda>b. student b = uid u \<and> status b \<in> set active_statuses) (bookings s)"
  shows "createBooking u r today gen s = (Failure ServerError, s)"
proof -
  from assms(10)
  have "find (\<lambda>b. student b = uid u \<and> status b \<in> set active_statuses) (bookings s) = None"
    by (simp add: find_active_None_iff)
  with assms show ?thesis
    by (simp add: createBooking_result)
qed

lemma createBooking_not_Duplicate:
  assumes "\<not> list_ex (\<lambda>b. student b = uid u \<and> status b \<in> set active_statuses) (bookings s)"
  shows "fst (createBooking u r today gen s) \<noteq> Failure DuplicateActiveBooking"
proof -
  from assms
  have "find (\<lambda>b. student b = uid u \<and> status b \<in> set active_statuses) (bookings s) = None"
    by (simp add: find_active_None_iff)
  then show ?thesis
    by (simp add: createBooking_result split: option.splits)
qed

text \<open>The price on binary64 numbers is the integer formula, with the food term under the
  handler's guard, as long as the amounts are not negative and the duration and the exact
  total stay below \<open>2 ^ 53\<close>.\<close>

lemma computePricing_exact:
  assumes "0 \<le> h_monthlyRent (hostel_pricing h)"
    and "0 \<le> or_zero (h_securityDeposit (hostel_pricing h))"
    and "0 \<le> or_zero (h_maintenanceCharges (hostel_pricing h))"
    and "0 \<le> food_monthlyCost (hostel_foodOptions h)"
    and "0 \<le> req_duration r" and "req_duration r < 2 ^ 53"
    and "h_monthlyRent (hostel_pricing h) * req_duration r
         + or_zero (h_securityDeposit (hostel_pricing h))
         + or_zero (h_maintenanceCharges (hostel_pricing h)) * req_duration r
         + food_monthlyCost (hostel_foodOptions h) * req_duration r < 2 ^ 53"
  shows "computePricing h r =
     h_monthlyRent (hostel_pricing h) * req_duration r
     + or_zero (h_securityDeposit (hostel_pricing h))
     + or_zero (h_maintenanceCharges (hostel_pricing h)) * req_duration r
     + (if food_selected r \<and> food_available (hostel_foodOptions h)
        then food_monthlyCost (hostel_foodOptions h) * req_duration r else 0)"
proof -
  define a where "a = h_monthlyRent (hostel_pricing h) * req_duration r"
  define b where "b = or_zero (h_securityDeposit (hostel_pricing h))"
  define c where "c = or_zero (h_maintenanceCharges (hostel_pricing h)) * req_duration r"
  define d where "d = food_monthlyCost (hostel_foodOptions h) * req_duration r"
  have nonneg: "0 \<le> a" "0 \<le> b" "0 \<le> c" "0 \<le> d"
    using assms(1-5) by (simp_all add: a_def b_def c_def d_def)
  have bound: "a + b + c + d < 2 ^ 53"
    using assms(7) by (simp add: a_def b_def c_def d_def)
  have duration: "nearest64 (req_duration r) = req_duration r"
    using assms(5,6) by (simp add: nearest64_exact)
  have "\<bar>a\<bar> < 2 ^ 53" "\<bar>c\<bar> < 2 ^ 53" "\<bar>d\<bar> < 2 ^ 53" "\<bar>a + b\<bar> < 2 ^ 53"
    "\<bar>a + b + c\<bar> < 2 ^ 53" "\<bar>a + b + c + d\<bar> < 2 ^ 53"
    using nonneg bound by simp_all
  then have exact: "nearest64 a = a" "nearest64 c = c" "nearest64 d = d"
    "nearest64 (a + b) = a + b" "nearest64 (a + b + c) = a + b + c"
    "nearest64 (a + b + c + d) = a + b + c + d"
    by (simp_all add: nearest64_exact)
  show ?thesis
    unfolding computePricing_def Let_def plus64_def times64_def duration
    unfolding a_def [symmetric] b_def [symmetric] c_def [symmetric] d_def [symmetric]
    by (simp add: exact)
qed


text \<open>
  Claim C2.  The claim has a successful \<open>createBooking\<close> persist the booking as \<open>Pending\<close>
  and take one room out of \<open>availableRooms\<close>.  No call of the handler succeeds and no call
  changes the state: a request that passes every check of the handler, at a hostel with a
  room available, for a student without bookings, ends in \<open>ServerError\<close>, because the new
  document has no \<^verbatim>\<open>bookingId\<close> when it is validated.  No path of the handler writes the
  hostel.
\<close>

theorem createBooking_never_persists:
  "fst (createBooking u r today gen s) \<noteq> Success
   \<and> snd (createBooking u r today gen s) = s
   \<and> (role u = Student \<and> valid_create_req r
      \<and> today \<le> req_checkInDate r \<and> req_checkInDate r < req_checkOutDate r
      \<and> findById (hostels s) (req_hostelId r) = Some h
      \<and> hostel_status h = HostelActive \<and> isVerified h
      \<and> find (\<lambda>room. rtype room = req_roomType r) (rooms h) = Some roomInfo
      \<and> 0 < availableRooms roomInfo
      \<and> \<not> list_ex (\<lambda>b. student b = uid u \<and> status b \<in> set active_statuses) (bookings s)
      \<longrightarrow> createBooking u r today gen s = (Failure ServerError, s))"
proof (intro conjI impI)
  show "fst (createBooking u r today gen s) \<noteq> Success"
    by (rule createBooking_not_Success)
  show "snd (createBooking u r today gen s) = s"
    by (rule createBooking_state)
next
  assume "role u = Student \<and> valid_create_req r
      \<and> today \<le> req_checkInDate r \<and> req_checkInDate r < req_checkOutDate r
      \<and> findById (hostels s) (req_hostelId r) = Some h
      \<and> hostel_status h = HostelActive \<and> isVerified h
      \<and> find (\<lambda>room. rtype room = req_roomType r) (rooms h) = Some roomInfo
      \<and> 0 < availableRooms roomInfo
      \<and> \<not> list_ex (\<lambda>b. student b = uid u \<and> status b \<in> set active_statuses) (bookings s)"
  then show "createBooking u r today gen s = (Failure ServerError, s)"
    using createBooking_ServerError [of u r today s h roomInfo gen] by blast
qed

text \<open>The example request at the example hostel with 1 of 1 rooms available and no
  bookings.\<close>

theorem createBooking_never_persists_witness:
  "role example_student = Student \<and> valid_create_req (example_req False)
   \<and> 0 \<le> req_checkInDate (example_req False)
   \<and> req_checkInDate (example_req False) < req_checkOutDate (example_req False)
   \<and> findById (hostels (example_state 1 1 [])) (req_hostelId (example_req False))
       = Some (example_hostel 1 1)
   \<and> hostel_status (example_hostel 1 1) = HostelActive \<and> isVerified (example_hostel 1 1)
   \<and> find (\<lambda>room. rtype room = req_roomType (example_req False)) (rooms (example_hostel 1 1))
       = Some \<lparr>rtype = Single, totalRooms = 1, availableRooms = 1\<rparr>
   \<and> \<not> list_ex (\<lambda>b. student b = uid example_student \<and> status b \<in> set active_statuses)
         (bookings (example_state 1 1 []))
   \<and> createBooking example_student (example_req False) 0 ''RV2611020001'' (example_state 1 1 [])
       = (Failure ServerError, example_state 1 1 [])
   \<and> available_rooms (example_state 1 1 []) = [[1]]
   \<and> bookings (example_state 1 1 []) = []"
  using createBooking_never_persists [where u = example_student and r = "example_req False"
      and today = 0 and gen = "''RV2611020001''" and s = "example_state 1 1 []"
      and h = "example_hostel 1 1"
      and roomInfo = "\<lparr>rtype = Single, totalRooms = 1, availableRooms = 1\<rparr>"]
  by (simp add: example_defs valid_create_req_def findById_def available_rooms_def)

text \<open>
  Claim C9, as the code has it.  \<open>createBooking\<close> fails and changes nothing for a student
  who holds a booking in status \<open>Pending\<close>, \<open>Confirmed\<close>, \<open>Paid\<close>, \<open>CheckedIn\<close> or
  \<open>Active\<close>, with \<open>DuplicateActiveBooking\<close> when the earlier checks pass; a student who
  holds no booking in these five statuses, whatever other bookings there are, is not
  refused as a duplicate.
\<close>

theorem createBooking_duplicate_guard:
  "(list_ex (\<lambda>b. student b = uid u \<and> status b \<in> set active_statuses) (bookings s) \<longrightarrow>
      (\<exists>e. createBooking u r today gen s = (Failure e, s))
      \<and> (role u = Student \<and> valid_create_req r
         \<and> today \<le> req_checkInDate r \<and> req_checkInDate r < req_checkOutDate r
         \<and> findById (hostels s) (req_hostelId r) = Some h
         \<and> hostel_status h = HostelActive \<and> isVerified h
         \<and> find (\<lambda>room. rtype room = req_roomType r) (rooms h) = Some roomInfo
         \<and> 0 < availableRooms roomInfo
         \<longrightarrow> createBooking u r today gen s = (Failure DuplicateActiveBooking, s)))
   \<and> (\<not> list_ex (\<lambda>b. student b = uid u \<and> status b \<in> set active_statuses) (bookings s) \<longrightarrow>
        fst (createBooking u r today gen s) \<noteq> Failure DuplicateActiveBooking)"
proof (intro conjI impI)
  show "\<exists>e. createBooking u r today gen s = (Failure e, s)"
    by (rule createBooking_fails)
next
  assume "list_ex (\<lambda>b. student b = uid u \<and> status b \<in> set active_statuses) (bookings s)"
    and "role u = Student \<and> valid_create_req r
         \<and> today \<le> req_checkInDate r \<and> req_checkInDate r < req_checkOutDate r
         \<and> findById (hostels s) (req_hostelId r) = Some h
         \<and> hostel_status h = HostelActive \<and> isVerified h
         \<and> find (\<lambda>room. rtype room = req_roomType r) (rooms h) = Some roomInfo
         \<and> 0 < availableRooms roomInfo"
  then show "createBooking u r today gen s = (Failure DuplicateActiveBooking, s)"
    using createBooking_Duplicate [of u r today s h roomInfo gen] by blast
next
  assume "\<not> list_ex (\<lambda>b. student b = uid u \<and> status b \<in> set active_statuses) (bookings s)"
  then show "fst (createBooking u r today gen s) \<noteq> Failure DuplicateActiveBooking"
    by (rule createBooking_not_Duplicate)
qed

text \<open>A student with a \<open>Confirmed\<close> booking is refused as a duplicate; a student whose only
  booking is \<open>CheckedOut\<close> is not.\<close>

theorem createBooking_duplicate_guard_witness:
  "list_ex (\<lambda>b. student b = uid example_student \<and> status b \<in> set active_statuses)
      (bookings (example_state 1 1 [example_booking False Confirmed]))
   \<and> createBooking example_student (example_req False) 0 ''RV2611020002''
       (example_state 1 1 [example_booking False Confirmed])
       = (Failure DuplicateActiveBooking, example_state 1 1 [example_booking False Confirmed])
   \<and> \<not> list_ex (\<lambda>b. student b = uid example_student \<and> status b \<in> set active_statuses)
         (bookings (example_state 1 1 [example_booking False CheckedOut]))
   \<and> fst (createBooking example_student (example_req False) 0 ''RV2611020002''
         (example_state 1 1 [example_booking False CheckedOut]))
       \<noteq> Failure DuplicateActiveBooking"
  using createBooking_duplicate_guard [where u = example_student
      and s = "example_state 1 1 [example_booking False Confirmed]" and r = "example_req False"
      and today = 0 and gen = "''RV2611020002''" and h = "example_hostel 1 1"
      and roomInfo = "\<lparr>rtype = Single, totalRooms = 1, availableRooms = 1\<rparr>"]
    createBooking_duplicate_guard [where u = example_student
      and s = "example_state 1 1 [example_booking False CheckedOut]" and r = "example_req False"
      and today = 0 and gen = "''RV2611020002''" and h = "example_hostel 1 1"
      and roomInfo = "\<lparr>rtype = Single, totalRooms = 1, availableRooms = 1\<rparr>"]
  by (simp add: example_create_duplicate example_create_after_checkout)
    (simp add: example_state_def example_student_def example_booking_simps active_statuses_def)

text \<open>
  Claim C9 as stated fails for \<open>CheckedOut\<close>, which is not a terminal status: the student
  holds one booking that is not terminal, and the call does not fail with
  \<open>DuplicateActiveBooking\<close>.
\<close>

theorem createBooking_duplicate_guard_counterexample:
  "non_terminal_count (example_state 1 1 [example_booking False CheckedOut])
      (uid example_student) = 1
   \<and> createBooking example_student (example_req False) 0 ''RV2611020002''
        (example_state 1 1 [example_booking False CheckedOut])
      \<noteq> (Failure DuplicateActiveBooking, example_state 1 1 [example_booking False CheckedOut])"
  by (simp add: example_create_after_checkout)
    (simp add: example_state_def example_student_def example_booking_simps terminal_statuses_def
       non_terminal_count_def)

section \<open>Confirming and rejecting\<close>

lemma pre_save_fields [simp]:
  "status (pre_save b) = status b"
  "cancellation (pre_save b) = cancellation b"
  "cancelledAt (pre_save b) = cancelledAt b"
  "payment (pre_save b) = payment b"
  "student (pre_save b) = student b"
  "owner (pre_save b) = owner b"
  "hostel (pre_save b) = hostel b"
  "roomType (pre_save b) = roomType b"
  "confirmedAt (pre_save b) = confirmedAt b"
  "paidAt (pre_save b) = paidAt b"
  "totalAmount (pricing (pre_save b)) = totalAmount (pricing b)"
  "paidAmount (pricing (pre_save b)) = paidAmount (pricing b)"
  "pendingAmount (pricing (pre_save b)) = totalAmount (pricing b) - paidAmount (pricing b)"
  by (simp_all add: pre_save_def)

lemma pre_save_consistent: "pending_consistent b \<Longrightarrow> pre_save b = b"
  by (simp add: pre_save_def pending_consistent_def)

lemma pending_consistent_pre_save [simp]: "pending_consistent (pre_save b)"
  by (simp add: pending_consistent_def pre_save_def)

lemma confirm_result:
  "confirm u bid now s =
     (if role u \<noteq> HostelOwner then (Failure Forbidden, s)
      else case findById (bookings s) bid of
        None \<Rightarrow> (Failure NotFound, s)
      | Some b \<Rightarrow>
          if owner b \<noteq> uid u then (Failure Forbidden, s)
          else if status b \<noteq> Pending then (Failure InvalidTransition, s)
          else (Success, s\<lparr>bookings := (bookings s)
                  [bid := pre_save (b\<lparr>status := Confirmed, confirmedAt := Some now\<rparr>)]\<rparr>))"
  by (simp add: confirm_def authorize_def)

lemma confirm_Success_iff:
  "fst (confirm u bid now s) = Success \<longleftrightarrow>
     role u = HostelOwner
     \<and> (\<exists>b. findById (bookings s) bid = Some b \<and> owner b = uid u \<and> status b = Pending)"
  by (auto simp add: confirm_result split: option.splits)

lemma confirm_errors:
  "fst (confirm u bid now s) \<in>
     {Success, Failure NotFound, Failure Forbidden, Failure InvalidTransition}"
  by (auto simp add: confirm_result split: option.splits)

lemma confirm_hostels: "hostels (snd (confirm u bid now s)) = hostels s"
  by (simp add: confirm_result split: option.splits)

lemma reject_result:
  "reject u bid why now s =
     (if role u \<noteq> HostelOwner then (Failure Forbidden, s)
      else case findById (bookings s) bid of
        None \<Rightarrow> (Failure NotFound, s)
      | Some b \<Rightarrow>
          if owner b \<noteq> uid u then (Failure Forbidden, s)
          else if status b \<noteq> Pending then (Failure InvalidTransition, s)
          else (Success, s\<lparr>bookings := (bookings s)
                  [bid := pre_save (b\<lparr>status := Rejected,
                     cancellation := \<lparr>reason = Some (or_string why ''Rejected by owner''),
                                       cancelledBy = Some ''Owner'',
                                       refundAmount = None, refundStatus = None\<rparr>,
                     cancelledAt := Some now\<rparr>)]\<rparr>))"
  by (simp add: reject_def authorize_def)

lemma reject_hostels: "hostels (snd (reject u bid why now s)) = hostels s"
  by (simp add: reject_result split: option.splits)

lemma reject_Success_status:
  "fst (reject u bid why now s) = Success \<Longrightarrow>
     \<exists>b. findById (bookings s) bid = Some b \<and> status b = Pending"
  by (auto simp add: reject_result split: option.splits if_splits)

text \<open>
  Claim C7, as the code has it.  For a booking in status \<open>Pending\<close>, a reject by the owner
  of the booking's hostel succeeds, sets the status to \<open>Rejected\<close>, stamps \<open>cancelledAt\<close>
  and records a cancellation with \<open>cancelledBy = Owner\<close> and the given or the default
  reason; reject succeeds on \<open>Pending\<close> bookings only and fails with \<open>InvalidTransition\<close>
  on any other status.  It never changes an \<open>availableRooms\<close> count.
\<close>

theorem reject_pending_booking:
  "(role u = HostelOwner \<and> findById (bookings s) bid = Some b \<and> owner b = uid u
      \<and> status b = Pending \<longrightarrow>
      (\<exists>b'. reject u bid why now s = (Success, s\<lparr>bookings := (bookings s)[bid := b']\<rparr>)
         \<and> status b' = Rejected
         \<and> cancelledBy (cancellation b') = Some ''Owner''
         \<and> reason (cancellation b') = Some (or_string why ''Rejected by owner'')
         \<and> cancelledAt b' = Some now))
   \<and> (fst (reject u bid why now s) = Success \<longrightarrow>
        (\<exists>b. findById (bookings s) bid = Some b \<and> status b = Pending))
   \<and> (role u = HostelOwner \<and> findById (bookings s) bid = Some b \<and> owner b = uid u
      \<and> status b \<noteq> Pending \<longrightarrow> reject u bid why now s = (Failure InvalidTransition, s))
   \<and> available_rooms (snd (reject u bid why now s)) = available_rooms s"
proof (intro conjI impI)
  let ?b' = "pre_save (b\<lparr>status := Rejected,
      cancellation := \<lparr>reason = Some (or_string why ''Rejected by owner''),
                        cancelledBy = Some ''Owner'',
                        refundAmount = None, refundStatus = None\<rparr>,
      cancelledAt := Some now\<rparr>)"
  assume "role u = HostelOwner \<and> findById (bookings s) bid = Some b \<and> owner b = uid u
      \<and> status b = Pending"
  then have "reject u bid why now s = (Success, s\<lparr>bookings := (bookings s)[bid := ?b']\<rparr>)"
    by (simp add: reject_result)
  then show "\<exists>b'. reject u bid why now s = (Success, s\<lparr>bookings := (bookings s)[bid := b']\<rparr>)
         \<and> status b' = Rejected
         \<and> cancelledBy (cancellation b') = Some ''Owner''
         \<and> reason (cancellation b') = Some (or_string why ''Rejected by owner'')
         \<and> cancelledAt b' = Some now"
    by (intro exI [of _ ?b']) simp
next
  assume "fst (reject u bid why now s) = Success"
  then show "\<exists>b. findById (bookings s) bid = Some b \<and> status b = Pending"
    by (rule reject_Success_status)
next
  assume "role u = HostelOwner \<and> findById (bookings s) bid = Some b \<and> owner b = uid u
      \<and> status b \<noteq> Pending"
  then show "reject u bid why now s = (Failure InvalidTransition, s)"
    by (simp add: reject_result)
next
  show "available_rooms (snd (reject u bid why now s)) = available_rooms s"
    by (simp add: available_rooms_def reject_hostels)
qed

text \<open>The owner rejects a pending booking, and is refused on a paid one.\<close>

theorem reject_pending_booking_witness:
  "role example_owner = HostelOwner
   \<and> findById (bookings (example_state 2 1 [example_booking False Pending])) 0
       = Some (example_booking False Pending)
   \<and> owner (example_booking False Pending) = uid example_owner
   \<and> status (example_booking False Pending) = Pending
   \<and> fst (reject example_owner 0 None 5 (example_state 2 1 [example_booking False Pending]))
       = Success
   \<and> map status (bookings (snd (reject example_owner 0 None 5
         (example_state 2 1 [example_booking False Pending])))) = [Rejected]
   \<and> findById (bookings (example_state 2 1 [example_booking False Paid])) 0
       = Some (example_booking False Paid)
   \<and> status (example_booking False Paid) \<noteq> Pending
   \<and> reject example_owner 0 None 5 (example_state 2 1 [example_booking False Paid])
       = (Failure InvalidTransition, example_state 2 1 [example_booking False Paid])"
  using reject_pending_booking [of example_owner "example_state 2 1 [example_booking False Pending]"
      0 "example_booking False Pending" None 5]
    reject_pending_booking [of example_owner "example_state 2 1 [example_booking False Paid]"
      0 "example_booking False Paid" None 5]
  by (simp add: example_reject example_reject_paid)
    (simp add: example_state_def example_owner_def example_booking_simps findById_def)

text \<open>
  Claim C7 as stated fails: with one of two rooms available, the reject succeeds and one
  room is available afterwards, not two.
\<close>

theorem reject_pending_booking_counterexample:
  "fst (reject example_owner 0 None 5 (example_state 2 1 [example_booking False Pending]))
     = Success
   \<and> available_rooms (example_state 2 1 [example_booking False Pending]) = [[1]]
   \<and> available_rooms (snd (reject example_owner 0 None 5
         (example_state 2 1 [example_booking False Pending]))) = [[1]]"
  by (simp add: example_reject)
    (simp add: available_rooms_def example_state_def example_hostel_def)

section \<open>The room counters\<close>

text \<open>Both updates of a hostel leave the bookings and every \<open>totalRooms\<close> alone, and
  neither stores a negative \<open>availableRooms\<close>.\<close>

lemma release_room_bookings: "bookings (snd (release_room hid rt s)) = bookings s"
  by (simp add: release_room_def Let_def split: option.splits)

lemma occupy_room_bookings: "bookings (snd (occupy_room hid rt s)) = bookings s"
  by (simp add: occupy_room_def Let_def split: option.splits)

lemma rooms_nonneg_hostel_update:
  assumes "rooms_nonneg s" and "findById (hostels s) hid = Some h"
    and "0 \<le> availableRooms ((rooms h)[i := room] ! i)"
  shows "rooms_nonneg (s\<lparr>hostels := (hostels s)[hid := h\<lparr>rooms := (rooms h)[i := room]\<rparr>]\<rparr>)"
proof -
  have "list_all (\<lambda>room. 0 \<le> availableRooms room) (rooms h)"
    using assms(1,2) unfolding rooms_nonneg_def by (rule findById_list_all [rotated])
  then have "list_all (\<lambda>room. 0 \<le> availableRooms room) ((rooms h)[i := room])"
    using assms(3) by (rule list_all_update_nth)
  then show ?thesis
    using assms(1) unfolding rooms_nonneg_def
    by (simp add: list_all_update)
qed

lemma release_room_nonneg:
  assumes "rooms_nonneg s"
  shows "rooms_nonneg (snd (release_room hid rt s))"
  using assms
  by (simp add: release_room_def Let_def rooms_nonneg_hostel_update split: option.splits)

lemma occupy_room_nonneg:
  assumes "rooms_nonneg s"
  shows "rooms_nonneg (snd (occupy_room hid rt s))"
proof (cases "findById (hostels s) hid")
  case None
  then show ?thesis using assms by (simp add: occupy_room_def)
next
  case (Some h)
  show ?thesis
  proof (cases "findIndex (\<lambda>room. rtype room = rt) (rooms h)")
    case None
    with Some show ?thesis using assms by (simp add: occupy_room_def)
  next
    case (Some i)
    have rooms: "list_all (\<lambda>room. 0 \<le> availableRooms room) (rooms h)"
      using assms \<open>findById (hostels s) hid = Some h\<close> unfolding rooms_nonneg_def
      by (rule findById_list_all [rotated])
    show ?thesis
      using assms \<open>findById (hostels s) hid = Some h\<close> Some rooms
      by (simp add: occupy_room_def Let_def rooms_nonneg_def list_all_update list_all_update_nth)
  qed
qed

lemma release_room_increment:
  assumes "findById (hostels s) hid = Some h"
    and "findIndex (\<lambda>room. rtype room = rt) (rooms h) = Some i"
    and "0 \<le> availableRooms (rooms h ! i) + 1"
  shows "release_room hid rt s =
     (Success, s\<lparr>hostels := (hostels s)
        [hid := h\<lparr>rooms := (rooms h)
           [i := (rooms h ! i)\<lparr>availableRooms := availableRooms (rooms h ! i) + 1\<rparr>]\<rparr>]\<rparr>)"
  using assms findIndex_Some_less [OF assms(2)]
  by (simp add: release_room_def add_available_def)

lemma total_rooms_hostel_update:
  assumes "findById (hostels s) hid = Some h"
    and "map totalRooms (rooms h') = map totalRooms (rooms h)"
  shows "total_rooms (s\<lparr>hostels := (hostels s)[hid := h']\<rparr>) = total_rooms s"
  using assms
  by (simp add: total_rooms_def map_update findById_Some_iff list_update_same_conv)

lemma map_totalRooms_update:
  "map totalRooms (xs[i := add_available n (xs ! i)]) = map totalRooms xs"
  by (cases "i < length xs")
    (simp_all add: map_update add_available_def list_update_same_conv list_update_beyond)

lemma release_room_total: "total_rooms (snd (release_room hid rt s)) = total_rooms s"
  by (simp add: release_room_def Let_def total_rooms_hostel_update map_totalRooms_update
      split: option.splits)

lemma occupy_room_total: "total_rooms (snd (occupy_room hid rt s)) = total_rooms s"
  by (simp add: occupy_room_def Let_def total_rooms_hostel_update map_totalRooms_update
      split: option.splits)

lemma rooms_nonneg_bookings [simp]: "rooms_nonneg (s\<lparr>bookings := bs\<rparr>) = rooms_nonneg s"
  by (simp add: rooms_nonneg_def)

lemma total_rooms_bookings [simp]: "total_rooms (s\<lparr>bookings := bs\<rparr>) = total_rooms s"
  by (simp add: total_rooms_def)

lemma rooms_nonneg_hostels: "hostels s' = hostels s \<Longrightarrow> rooms_nonneg s' = rooms_nonneg s"
  by (simp add: rooms_nonneg_def)

lemma total_rooms_hostels: "hostels s' = hostels s \<Longrightarrow> total_rooms s' = total_rooms s"
  by (simp add: total_rooms_def)

section \<open>Cancelling\<close>

text \<open>The handler either refuses and leaves the state as it was, or saves the cancelled
  booking and goes on to the hostel.\<close>

lemma cancel_saved:
  assumes "why \<noteq> []" "findById (bookings s) bid = Some b"
    "student b = uid u \<or> owner b = uid u \<or> role u = Admin"
    "canBeCancelled b" "cancellation_valid (cancellation (cancelled_booking b u why now))"
  shows "cancel u bid why now s =
     release_room (hostel b) (roomType b)
       (s\<lparr>bookings := (bookings s)[bid := pre_save (cancelled_booking b u why now)]\<rparr>)"
  using assms by (simp add: cancel_def)

lemma cancel_cases:
  obtains (refused) e where "cancel u bid why now s = (Failure e, s)"
      and "e \<in> {ValidationError, NotFound, Forbidden, InvalidTransition, ServerError}"
  | (saved) b where "why \<noteq> []" "findById (bookings s) bid = Some b"
      "student b = uid u \<or> owner b = uid u \<or> role u = Admin"
      "canBeCancelled b" "cancellation_valid (cancellation (cancelled_booking b u why now))"
      "cancel u bid why now s =
         release_room (hostel b) (roomType b)
           (s\<lparr>bookings := (bookings s)[bid := pre_save (cancelled_booking b u why now)]\<rparr>)"
proof (cases "why = []")
  case True
  then have "cancel u bid why now s = (Failure ValidationError, s)" by (simp add: cancel_def)
  then show ?thesis by (rule refused) simp
next
  case nonempty: False
  show ?thesis
  proof (cases "findById (bookings s) bid")
    case None
    with nonempty have "cancel u bid why now s = (Failure NotFound, s)" by (simp add: cancel_def)
    then show ?thesis by (rule refused) simp
  next
    case (Some b)
    show ?thesis
    proof (cases "student b = uid u \<or> owner b = uid u \<or> role u = Admin")
      case False
      with nonempty Some have "cancel u bid why now s = (Failure Forbidden, s)"
        by (simp add: cancel_def)
      then show ?thesis by (rule refused) simp
    next
      case allowed: True
      show ?thesis
      proof (cases "canBeCancelled b")
        case False
        with nonempty Some allowed have "cancel u bid why now s = (Failure InvalidTransition, s)"
          by (auto simp add: cancel_def)
        then show ?thesis by (rule refused) simp
      next
        case cancellable: True
        show ?thesis
        proof (cases "cancellation_valid (cancellation (cancelled_booking b u why now))")
          case False
          with nonempty Some allowed cancellable
          have "cancel u bid why now s = (Failure ServerError, s)"
            by (auto simp add: cancel_def)
          then show ?thesis by (rule refused) simp
        next
          case True
          with nonempty Some allowed cancellable show ?thesis
            by (intro saved [of b] cancel_saved)
        qed
      qed
    qed
  qed
qed

lemma cancel_Success:
  assumes "cancel u bid why now s = (Success, s')"
  shows "\<exists>b. findById (bookings s) bid = Some b \<and> canBeCancelled b
     \<and> bookings s' = (bookings s)[bid := pre_save (cancelled_booking b u why now)]"
proof (cases rule: cancel_cases [of u bid why now s])
  case (refused e)
  with assms show ?thesis by simp
next
  case (saved b)
  from saved(6) assms
  have "s' = snd (release_room (hostel b) (roomType b)
      (s\<lparr>bookings := (bookings s)[bid := pre_save (cancelled_booking b u why now)]\<rparr>))"
    by (metis snd_conv)
  then have "bookings s' = (bookings s)[bid := pre_save (cancelled_booking b u why now)]"
    by (simp add: release_room_bookings)
  with saved(2,4) show ?thesis by blast
qed

lemma cancel_nonneg: "rooms_nonneg s \<Longrightarrow> rooms_nonneg (snd (cancel u bid why now s))"
  by (cases rule: cancel_cases [of u bid why now s]) (simp_all add: release_room_nonneg)

lemma cancel_total: "total_rooms (snd (cancel u bid why now s)) = total_rooms s"
  by (cases rule: cancel_cases [of u bid why now s]) (simp_all add: release_room_total)

lemma cancel_consistent:
  "list_all pending_consistent (bookings s)
     \<Longrightarrow> list_all pending_consistent (bookings (snd (cancel u bid why now s)))"
  by (cases rule: cancel_cases [of u bid why now s])
    (simp_all add: release_room_bookings list_all_update)

lemma canBeCancelled_iff: "canBeCancelled b \<longleftrightarrow> status b \<in> {Pending, Confirmed, Paid}"
  by (simp add: canBeCancelled_def)

lemma cancel_Success_fst:
  assumes "fst (cancel u bid why now s) = Success"
  shows "\<exists>b. findById (bookings s) bid = Some b \<and> status b \<in> {Pending, Confirmed, Paid}"
proof -
  from assms have "cancel u bid why now s = (Success, snd (cancel u bid why now s))"
    by (metis prod.collapse)
  from cancel_Success [OF this] show ?thesis
    by (auto simp add: canBeCancelled_iff)
qed

lemma cancel_InvalidTransition:
  assumes "why \<noteq> []" "findById (bookings s) bid = Some b"
    "student b = uid u \<or> owner b = uid u \<or> role u = Admin"
    "status b \<notin> {Pending, Confirmed, Paid}"
  shows "cancel u bid why now s = (Failure InvalidTransition, s)"
  using assms by (auto simp add: cancel_def canBeCancelled_def)

text \<open>
  Claim C8.  \<open>confirm\<close> succeeds exactly when the caller is a hostel owner, the booking
  exists, the caller owns it and its status is \<open>Pending\<close>; otherwise it fails with
  \<open>NotFound\<close>, \<open>Forbidden\<close> or \<open>InvalidTransition\<close>, the latter for the owner's call
  on a booking in any other status, such as \<open>Paid\<close>.  \<open>cancel\<close> succeeds only from
  \<open>Pending\<close>, \<open>Confirmed\<close> or \<open>Paid\<close>; an entitled caller's cancel of a booking in any
  other status, such as \<open>Completed\<close>, fails with \<open>InvalidTransition\<close>.
\<close>

theorem transition_guards:
  "(fst (confirm u bid now s) = Success \<longleftrightarrow>
      role u = HostelOwner
      \<and> (\<exists>b. findById (bookings s) bid = Some b \<and> owner b = uid u \<and> status b = Pending))
   \<and> fst (confirm u bid now s)
        \<in> {Success, Failure NotFound, Failure Forbidden, Failure InvalidTransition}
   \<and> (role u = HostelOwner \<and> findById (bookings s) bid = Some b \<and> owner b = uid u
        \<and> status b \<noteq> Pending \<longrightarrow> confirm u bid now s = (Failure InvalidTransition, s))
   \<and> (fst (cancel u' bid' why now' s) = Success \<longrightarrow>
        (\<exists>b. findById (bookings s) bid' = Some b \<and> status b \<in> {Pending, Confirmed, Paid}))
   \<and> (why \<noteq> [] \<and> findById (bookings s) bid' = Some b'
        \<and> (student b' = uid u' \<or> owner b' = uid u' \<or> role u' = Admin)
        \<and> status b' \<notin> {Pending, Confirmed, Paid}
        \<longrightarrow> cancel u' bid' why now' s = (Failure InvalidTransition, s))"
proof (intro conjI impI)
  show "fst (confirm u bid now s) = Success \<longleftrightarrow>
      role u = HostelOwner
      \<and> (\<exists>b. findById (bookings s) bid = Some b \<and> owner b = uid u \<and> status b = Pending)"
    by (rule confirm_Success_iff)
  show "fst (confirm u bid now s)
        \<in> {Success, Failure NotFound, Failure Forbidden, Failure InvalidTransition}"
    by (rule confirm_errors)
next
  assume "role u = HostelOwner \<and> findById (bookings s) bid = Some b \<and> owner b = uid u
        \<and> status b \<noteq> Pending"
  then show "confirm u bid now s = (Failure InvalidTransition, s)"
    by (simp add: confirm_result)
next
  assume "fst (cancel u' bid' why now' s) = Success"
  then show "\<exists>b. findById (bookings s) bid' = Some b \<and> status b \<in> {Pending, Confirmed, Paid}"
    by (rule cancel_Success_fst)
next
  assume "why \<noteq> [] \<and> findById (bookings s) bid' = Some b'
        \<and> (student b' = uid u' \<or> owner b' = uid u' \<or> role u' = Admin)
        \<and> status b' \<notin> {Pending, Confirmed, Paid}"
  then show "cancel u' bid' why now' s = (Failure InvalidTransition, s)"
    using cancel_InvalidTransition [of why s bid' b' u' now'] by blast
qed

text \<open>Confirm on a pending and on a paid booking, cancel on a completed one.\<close>

theorem transition_guards_witness:
  "role example_owner = HostelOwner
   \<and> findById (bookings (example_state 1 1 [example_booking False Pending])) 0
       = Some (example_booking False Pending)
   \<and> owner (example_booking False Pending) = uid example_owner
   \<and> fst (confirm example_owner 0 3 (example_state 1 1 [example_booking False Pending])) = Success
   \<and> findById (bookings (example_state 1 1 [example_booking False Paid])) 0
       = Some (example_booking False Paid)
   \<and> status (example_booking False Paid) \<noteq> Pending
   \<and> confirm example_owner 0 3 (example_state 1 1 [example_booking False Paid])
       = (Failure InvalidTransition, example_state 1 1 [example_booking False Paid])
   \<and> findById (bookings (example_state 1 1 [example_booking False Completed])) 0
       = Some (example_booking False Completed)
   \<and> student (example_booking False Completed) = uid example_student
   \<and> status (example_booking False Completed) \<notin> {Pending, Confirmed, Paid}
   \<and> cancel example_student 0 ''changed plans'' 3
        (example_state 1 1 [example_booking False Completed])
       = (Failure InvalidTransition, example_state 1 1 [example_booking False Completed])"
  using transition_guards [of example_owner 0 3 "example_state 1 1 [example_booking False Pending]"
      "example_booking False Pending" example_student 0 "''changed plans''" 3
      "example_booking False Pending"]
    transition_guards [of example_owner 0 3 "example_state 1 1 [example_booking False Paid]"
      "example_booking False Paid" example_student 0 "''changed plans''" 3
      "example_booking False Paid"]
    transition_guards [of example_owner 0 3 "example_state 1 1 [example_booking False Completed]"
      "example_booking False Completed" example_student 0 "''changed plans''" 3
      "example_booking False Completed"]
  by (simp add: example_confirm example_confirm_paid example_cancel_completed)
    (simp add: example_state_def example_owner_def example_student_def example_booking_simps
       findById_def)

section \<open>Verifying a payment\<close>

lemma verifyPayment_saved:
  assumes "role u = Student"
    "razorpay_payment_id r \<noteq> []" "razorpay_order_id r \<noteq> []" "razorpay_signature r \<noteq> []"
    "findById (bookings s) bid = Some b" "student b = uid u"
    "expectedSignature hmac secret r = razorpay_signature r"
    "0 \<le> totalAmount (pricing b)"
  shows "verifyPayment hmac secret u bid r now s =
     occupy_room (hostel b) (roomType b)
       (s\<lparr>bookings := (bookings s)[bid := pre_save (paid_booking b r now)]\<rparr>)"
  using assms by (simp add: verifyPayment_def authorize_def paid_booking_def)

lemma verifyPayment_cases:
  obtains (refused) e where "verifyPayment hmac secret u bid r now s = (Failure e, s)"
      and "e \<in> {Forbidden, ValidationError, NotFound, InvalidSignature, ServerError}"
  | (saved) b where "role u = Student"
      "razorpay_payment_id r \<noteq> []" "razorpay_order_id r \<noteq> []" "razorpay_signature r \<noteq> []"
      "findById (bookings s) bid = Some b" "student b = uid u"
      "expectedSignature hmac secret r = razorpay_signature r"
      "0 \<le> totalAmount (pricing b)"
      "verifyPayment hmac secret u bid r now s =
         occupy_room (hostel b) (roomType b)
           (s\<lparr>bookings := (bookings s)[bid := pre_save (paid_booking b r now)]\<rparr>)"
proof (cases "role u = Student \<and> razorpay_payment_id r \<noteq> [] \<and> razorpay_order_id r \<noteq> []
    \<and> razorpay_signature r \<noteq> []")
  case False
  then have "verifyPayment hmac secret u bid r now s = (Failure Forbidden, s)
      \<or> verifyPayment hmac secret u bid r now s = (Failure ValidationError, s)"
    by (auto simp add: verifyPayment_def authorize_def)
  then show ?thesis using refused by auto
next
  case request: True
  show ?thesis
  proof (cases "findById (bookings s) bid")
    case None
    with request have "verifyPayment hmac secret u bid r now s = (Failure NotFound, s)"
      by (simp add: verifyPayment_def authorize_def)
    then show ?thesis by (rule refused) simp
  next
    case (Some b)
    show ?thesis
    proof (cases "student b = uid u \<and> expectedSignature hmac secret r = razorpay_signature r
        \<and> 0 \<le> totalAmount (pricing b)")
      case False
      with request Some
      have "verifyPayment hmac secret u bid r now s = (Failure Forbidden, s)
        \<or> verifyPayment hmac secret u bid r now s = (Failure InvalidSignature, s)
        \<or> verifyPayment hmac secret u bid r now s = (Failure ServerError, s)"
        by (auto simp add: verifyPayment_def authorize_def paid_booking_def)
      then show ?thesis using refused by auto
    next
      case True
      with request Some show ?thesis
        by (intro saved [of b] verifyPayment_saved) simp_all
    qed
  qed
qed

lemma verifyPayment_nonneg:
  "rooms_nonneg s \<Longrightarrow> rooms_nonneg (snd (verifyPayment hmac secret u bid r now s))"
  by (cases rule: verifyPayment_cases [of hmac secret u bid r now s])
    (simp_all add: occupy_room_nonneg)

lemma verifyPayment_total:
  "total_rooms (snd (verifyPayment hmac secret u bid r now s)) = total_rooms s"
  by (cases rule: verifyPayment_cases [of hmac secret u bid r now s])
    (simp_all add: occupy_room_total)

lemma verifyPayment_consistent:
  "list_all pending_consistent (bookings s)
     \<Longrightarrow> list_all pending_consistent (bookings (snd (verifyPayment hmac secret u bid r now s)))"
  by (cases rule: verifyPayment_cases [of hmac secret u bid r now s])
    (simp_all add: occupy_room_bookings list_all_update)

lemma verifyPayment_bad_signature_unchanged:
  assumes "expectedSignature hmac secret r \<noteq> razorpay_signature r"
  shows "\<exists>e. verifyPayment hmac secret u bid r now s = (Failure e, s)"
  using assms
  by (cases rule: verifyPayment_cases [of hmac secret u bid r now s]) simp_all

text \<open>
  Claim C4.  A verification call whose signature differs from the keyed hash of
  \<open>orderId|paymentId\<close> fails and changes nothing: the state after the call is the state
  before it, so the booking's status, amounts and payment sub-record and every
  \<open>availableRooms\<close> are as they were.  When the call is a student's, with all three fields
  present, for a booking of that student, the failure is \<open>InvalidSignature\<close>.
\<close>

theorem verifyPayment_invalid_signature:
  assumes "expectedSignature hmac secret r \<noteq> razorpay_signature r"
  shows "(\<exists>e. verifyPayment hmac secret u bid r now s = (Failure e, s))
    \<and> (role u = Student \<and> razorpay_payment_id r \<noteq> [] \<and> razorpay_order_id r \<noteq> []
        \<and> razorpay_signature r \<noteq> []
        \<and> findById (bookings s) bid = Some b \<and> student b = uid u
        \<longrightarrow> verifyPayment hmac secret u bid r now s = (Failure InvalidSignature, s))"
proof (intro conjI impI)
  show "\<exists>e. verifyPayment hmac secret u bid r now s = (Failure e, s)"
    using assms by (rule verifyPayment_bad_signature_unchanged)
next
  assume "role u = Student \<and> razorpay_payment_id r \<noteq> [] \<and> razorpay_order_id r \<noteq> []
        \<and> razorpay_signature r \<noteq> []
        \<and> findById (bookings s) bid = Some b \<and> student b = uid u"
  with assms show "verifyPayment hmac secret u bid r now s = (Failure InvalidSignature, s)"
    by (simp add: verifyPayment_def authorize_def)
qed

text \<open>A signature for another payment id: the confirmed booking stays confirmed.\<close>

theorem verifyPayment_invalid_signature_witness:
  "expectedSignature example_hmac ''s3cret'' (example_verify_req ''s3cretorder_1|pay_2'')
     \<noteq> razorpay_signature (example_verify_req ''s3cretorder_1|pay_2'')
   \<and> role example_student = Student
   \<and> findById (bookings (example_state 1 1 [example_booking False Confirmed])) 0
       = Some (example_booking False Confirmed)
   \<and> student (example_booking False Confirmed) = uid example_student
   \<and> verifyPayment example_hmac ''s3cret'' example_student 0
        (example_verify_req ''s3cretorder_1|pay_2'') 4
        (example_state 1 1 [example_booking False Confirmed])
       = (Failure InvalidSignature, example_state 1 1 [example_booking False Confirmed])
   \<and> status (example_booking False Confirmed) = Confirmed"
proof -
  have bad: "expectedSignature example_hmac ''s3cret'' (example_verify_req ''s3cretorder_1|pay_2'')
     \<noteq> razorpay_signature (example_verify_req ''s3cretorder_1|pay_2'')"
    by (simp add: expectedSignature_def example_hmac_def example_verify_req_def)
  show ?thesis
    using bad verifyPayment_invalid_signature [OF bad, of example_student 0 4
        "example_state 1 1 [example_booking False Confirmed]" "example_booking False Confirmed"]
    by (simp add: example_state_def example_student_def example_booking_simps findById_def
        example_verify_req_def)
qed

text \<open>With a valid signature the handler marks the student's booking as paid whatever
  its status was.\<close>

lemma verifyPayment_any_status:
  assumes "role u = Student"
    "razorpay_payment_id r \<noteq> []" "razorpay_order_id r \<noteq> []" "razorpay_signature r \<noteq> []"
    "findById (bookings s) bid = Some b" "student b = uid u"
    "expectedSignature hmac secret r = razorpay_signature r"
    "0 \<le> totalAmount (pricing b)"
  shows "\<exists>b'. findById (bookings (snd (verifyPayment hmac secret u bid r now s))) bid = Some b'
     \<and> status b' = Paid
     \<and> paidAmount (pricing b') = totalAmount (pricing b)
     \<and> pendingAmount (pricing b') = 0
     \<and> paidAt b' = Some now"
proof -
  from assms(5) have "bid < length (bookings s)"
    by (simp add: findById_Some_iff)
  then show ?thesis
    by (simp add: verifyPayment_saved [OF assms] occupy_room_bookings findById_update
        paid_booking_def)
qed

text \<open>
  Claim C3.  The claim lets \<open>recordPayment\<close> succeed on \<open>Confirmed\<close> bookings only and
  makes a repeated call a no-op.  The handler has no status check: a booking that is still
  \<open>Pending\<close> becomes \<open>Paid\<close> with \<open>paidAmount = totalAmount\<close> and \<open>pendingAmount = 0\<close>,
  and the same request sent again succeeds again and takes a second room out of
  \<open>availableRooms\<close> (2, then 1, then 0).
\<close>

theorem verifyPayment_without_status_check:
  "map status (bookings (example_state 2 2 [example_booking False Pending])) = [Pending]
   \<and> available_rooms (example_state 2 2 [example_booking False Pending]) = [[2]]
   \<and> fst (verifyPayment example_hmac ''s3cret'' example_student 0 example_valid_req 4
         (example_state 2 2 [example_booking False Pending])) = Success
   \<and> map status (bookings (snd (verifyPayment example_hmac ''s3cret'' example_student 0
         example_valid_req 4 (example_state 2 2 [example_booking False Pending])))) = [Paid]
   \<and> map (\<lambda>b. paidAmount (pricing b)) (bookings (snd (verifyPayment example_hmac ''s3cret''
         example_student 0 example_valid_req 4
         (example_state 2 2 [example_booking False Pending])))) = [6500]
   \<and> available_rooms (snd (verifyPayment example_hmac ''s3cret'' example_student 0
         example_valid_req 4 (example_state 2 2 [example_booking False Pending]))) = [[1]]
   \<and> fst (verifyPayment example_hmac ''s3cret'' example_student 0 example_valid_req 4
         (snd (verifyPayment example_hmac ''s3cret'' example_student 0 example_valid_req 4
            (example_state 2 2 [example_booking False Pending])))) = Success
   \<and> available_rooms (snd (verifyPayment example_hmac ''s3cret'' example_student 0
         example_valid_req 4
         (snd (verifyPayment example_hmac ''s3cret'' example_student 0 example_valid_req 4
            (example_state 2 2 [example_booking False Pending]))))) = [[0]]"
  by (simp add: example_verify_pending example_verify_replay)
    (simp add: example_booking_simps example_paid_booking_def example_hostel_def
      example_state_def available_rooms_def)

section \<open>Sequences of operations\<close>

lemma confirm_consistent:
  "list_all pending_consistent (bookings s)
     \<Longrightarrow> list_all pending_consistent (bookings (snd (confirm u bid now s)))"
  by (simp add: confirm_result list_all_update split: option.splits)

lemma reject_consistent:
  "list_all pending_consistent (bookings s)
     \<Longrightarrow> list_all pending_consistent (bookings (snd (reject u bid why now s)))"
  by (simp add: reject_result list_all_update split: option.splits)

lemma createBooking_consistent:
  "list_all pending_consistent (bookings s)
     \<Longrightarrow> list_all pending_consistent (bookings (snd (createBooking u r today gen s)))"
  by (simp add: createBooking_state)

lemma step_nonneg: "rooms_nonneg s \<Longrightarrow> rooms_nonneg (snd (step hmac secret s x))"
  by (cases x)
    (simp_all add: cancel_nonneg verifyPayment_nonneg
      createBooking_state
      rooms_nonneg_hostels [OF confirm_hostels] rooms_nonneg_hostels [OF reject_hostels])

lemma step_total: "total_rooms (snd (step hmac secret s x)) = total_rooms s"
  by (cases x)
    (simp_all add: cancel_total verifyPayment_total
      createBooking_state
      total_rooms_hostels [OF confirm_hostels] total_rooms_hostels [OF reject_hostels])

lemma step_consistent:
  "list_all pending_consistent (bookings s)
     \<Longrightarrow> list_all pending_consistent (bookings (snd (step hmac secret s x)))"
  by (cases x)
    (simp_all add: cancel_consistent verifyPayment_consistent createBooking_consistent confirm_consistent
      reject_consistent)

lemma run_consistent:
  "list_all pending_consistent (bookings s)
     \<Longrightarrow> list_all pending_consistent (bookings (run hmac secret s xs))"
  by (induction xs arbitrary: s) (simp_all add: step_consistent)

text \<open>The operations never store a negative \<open>availableRooms\<close> and never change a
  \<open>totalRooms\<close>: the decrement of a verified payment is not stored when it would go below
  zero.\<close>

lemma run_nonneg: "rooms_nonneg s \<Longrightarrow> rooms_nonneg (run hmac secret s xs)"
  by (induction xs arbitrary: s) (simp_all add: step_nonneg)

lemma run_total: "total_rooms (run hmac secret s xs) = total_rooms s"
  by (induction xs arbitrary: s) (simp_all add: step_total)

text \<open>
  Claim C1.  The claim keeps \<open>0 \<le> availableRooms \<le> totalRooms\<close> through every sequence
  of operations, the release of a cancellation being capped at \<open>totalRooms\<close>.  A room is
  taken out of \<open>availableRooms\<close> when a payment is verified, and \<open>cancel\<close> puts one back
  for every booking, paid or not, without a cap: at a hostel with 1 of 1 rooms available,
  the student cancels a \<open>Pending\<close> booking, nothing of which has been paid; the call
  succeeds and the hostel has 2 available rooms of 1.
\<close>

theorem cancel_unpaid_exceeds_total:
  "rooms_within_total (example_state 1 1 [example_booking False Pending])
   \<and> map status (bookings (example_state 1 1 [example_booking False Pending])) = [Pending]
   \<and> map (\<lambda>b. paidAmount (pricing b))
        (bookings (example_state 1 1 [example_booking False Pending])) = [0]
   \<and> fst (cancel example_student 0 ''changed plans'' 5
        (example_state 1 1 [example_booking False Pending])) = Success
   \<and> map status (bookings (snd (cancel example_student 0 ''changed plans'' 5
        (example_state 1 1 [example_booking False Pending])))) = [Cancelled]
   \<and> available_rooms (snd (cancel example_student 0 ''changed plans'' 5
        (example_state 1 1 [example_booking False Pending]))) = [[2]]
   \<and> total_rooms (snd (cancel example_student 0 ''changed plans'' 5
        (example_state 1 1 [example_booking False Pending]))) = [[1]]
   \<and> \<not> rooms_within_total (snd (cancel example_student 0 ''changed plans'' 5
        (example_state 1 1 [example_booking False Pending])))"
  by (simp add: example_cancel_pending)
    (simp add: rooms_within_total_def available_rooms_def total_rooms_def example_state_def
      example_hostel_def example_booking_simps)

text \<open>
  Claim C10.  In every state that the operations reach from stored bookings (each of which
  the pre-save hook has left with \<open>pendingAmount = totalAmount - paidAmount\<close>), a successful
  cancel of a booking finds it in status \<open>Pending\<close>, \<open>Confirmed\<close> or \<open>Paid\<close> and changes
  its status, its cancellation sub-record and \<open>cancelledAt\<close> only: the pricing fields and
  the payment sub-record keep their values, and the refund is recorded as the
  cancellation's \<open>refundAmount\<close>.
\<close>

theorem cancel_keeps_pricing:
  assumes "list_all pending_consistent (bookings s0)"
    and "s = run hmac secret s0 xs"
    and "findById (bookings s) bid = Some b"
    and "cancel u bid why now s = (Success, s')"
  shows "status b \<in> {Pending, Confirmed, Paid}
    \<and> (\<exists>b'. findById (bookings s') bid = Some b'
          \<and> pricing b' = pricing b
          \<and> payment b' = payment b
          \<and> refundAmount (cancellation b') = Some (cancel_refund b now)
          \<and> b' = b\<lparr>status := Cancelled, cancellation := cancellation b',
                    cancelledAt := Some now\<rparr>)"
proof -
  from cancel_Success [OF assms(4)] assms(3)
  have cancellable: "canBeCancelled b"
    and s': "bookings s' = (bookings s)[bid := pre_save (cancelled_booking b u why now)]"
    by auto
  have "list_all pending_consistent (bookings s)"
    unfolding assms(2) using assms(1) by (rule run_consistent)
  with assms(3) have "pending_consistent b"
    by (rule findById_list_all)
  then have "pending_consistent (cancelled_booking b u why now)"
    by (simp add: pending_consistent_def cancelled_booking_def)
  then have saved: "pre_save (cancelled_booking b u why now) = cancelled_booking b u why now"
    by (rule pre_save_consistent)
  from assms(3) have "bid < length (bookings s)"
    by (simp add: findById_Some_iff)
  then have found: "findById (bookings s') bid = Some (cancelled_booking b u why now)"
    by (simp add: s' saved findById_update)
  have "pricing (cancelled_booking b u why now) = pricing b"
    "payment (cancelled_booking b u why now) = payment b"
    "refundAmount (cancellation (cancelled_booking b u why now)) = Some (cancel_refund b now)"
    "cancelled_booking b u why now
       = b\<lparr>status := Cancelled, cancellation := cancellation (cancelled_booking b u why now),
            cancelledAt := Some now\<rparr>"
    by (simp_all add: cancelled_booking_def)
  with found cancellable show ?thesis
    by (simp add: canBeCancelled_iff)
qed

text \<open>The stored \<open>Pending\<close> example booking is confirmed and paid, then cancelled 20 days
  before check-in: the amounts stay, the refund of 4550 goes into the cancellation.\<close>

theorem cancel_keeps_pricing_witness:
  "list_all pending_consistent (bookings (example_state 2 2 [example_booking False Pending]))
   \<and> findById (bookings (run example_hmac ''s3cret''
        (example_state 2 2 [example_booking False Pending]) example_operations)) 0
       = Some (example_paid_booking\<lparr>confirmedAt := Some 3\<rparr>)
   \<and> status (example_paid_booking\<lparr>confirmedAt := Some 3\<rparr>) = Paid
   \<and> paidAmount (pricing (example_paid_booking\<lparr>confirmedAt := Some 3\<rparr>)) = 6500
   \<and> fst (cancel example_student 0 ''changed plans'' 6912000000
         (run example_hmac ''s3cret'' (example_state 2 2 [example_booking False Pending])
            example_operations)) = Success
   \<and> map pricing (bookings (snd (cancel example_student 0 ''changed plans'' 6912000000
         (run example_hmac ''s3cret'' (example_state 2 2 [example_booking False Pending])
            example_operations))))
       = [pricing example_paid_booking]
   \<and> map payment (bookings (snd (cancel example_student 0 ''changed plans'' 6912000000
         (run example_hmac ''s3cret'' (example_state 2 2 [example_booking False Pending])
            example_operations))))
       = [payment example_paid_booking]
   \<and> cancel_refund (example_paid_booking\<lparr>confirmedAt := Some 3\<rparr>) 6912000000 = 4550"
  using cancel_keeps_pricing [of "example_state 2 2 [example_booking False Pending]"
      "run example_hmac ''s3cret'' (example_state 2 2 [example_booking False Pending])
         example_operations"
      example_hmac "''s3cret''" example_operations 0 "example_paid_booking\<lparr>confirmedAt := Some 3\<rparr>"
      example_student "''changed plans''" 6912000000
      "snd (cancel example_student 0 ''changed plans'' 6912000000
         (run example_hmac ''s3cret'' (example_state 2 2 [example_booking False Pending])
            example_operations))"]
  by (simp add: example_run_paid example_cancel_paid)
    (simp add: example_state_def findById_def example_paid_booking_def example_booking_record
      pending_consistent_def cancel_refund_def calculateRefund_def daysUntilCheckIn_def
      refund_defs)

end
